theory Spec2Isabelle
  imports Complex_Main "HOL-Library.Char_ord" "HOL-Library.List_Lexorder" "HOL-Library.Sublist"
    "HOL-Library.Multiset"
begin

section \<open>Data model (src/unnamed/part_000, the types module)\<close>

datatype TaskStatus = Todo | Done

datatype TaskPriority = High | Medium | Normal

text \<open>
  \<^verbatim>\<open>TaskRecord\<close>: instants and dates are ISO strings, nullable fields are options.
\<close>

record TaskRecord =
  t_id :: string
  t_user_id :: string
  t_title :: string
  t_status :: TaskStatus
  t_priority :: TaskPriority
  t_tags :: "string list"
  t_scheduled_date :: "string option"
  t_due_time :: "string option"
  t_estimate_minutes :: "int option"
  t_energy :: "string option"
  t_created_at :: string
  t_updated_at :: string
  t_completed_at :: "string option"
  t_original_scheduled_date :: "string option"
  t_timezone :: string
  t_top3_slot :: "int option"
  t_last_notified_at :: "string option"

section \<open>Dexie tables (src/src/lib/db.ts)\<close>

text \<open>
  A Dexie table with an inline primary key (\<^verbatim>\<open>'id, ...'\<close>, \<^verbatim>\<open>'&key'\<close>) holds at most one
  row per key and enumerates its rows in ascending key order. The rows are kept as a list
  in that order; \<open>key\<close> reads the primary key of a row.
\<close>

definition table_get :: "('v \<Rightarrow> string) \<Rightarrow> string \<Rightarrow> 'v list \<Rightarrow> 'v option" where
  "table_get key k t = find (\<lambda>r. key r = k) t"

definition table_delete :: "('v \<Rightarrow> string) \<Rightarrow> string \<Rightarrow> 'v list \<Rightarrow> 'v list" where
  "table_delete key k t = filter (\<lambda>r. key r \<noteq> k) t"

definition table_put :: "('v \<Rightarrow> string) \<Rightarrow> 'v \<Rightarrow> 'v list \<Rightarrow> 'v list" where
  "table_put key v t = insort_key key v (table_delete key (key v) t)"

subsection \<open>Timestamps as the client reads them\<close>

text \<open>
  The result of \<^verbatim>\<open>new Date(iso).getTime()\<close>: a whole number of milliseconds, or NaN for
  a string that is no date.
\<close>

datatype ms = NaN | Ms int

text \<open>JavaScript's \<^verbatim>\<open>a > b\<close> on such numbers: false as soon as one side is NaN.\<close>

fun js_gt :: "ms \<Rightarrow> ms \<Rightarrow> bool" where
  "js_gt (Ms a) (Ms b) = (a > b)"
| "js_gt _ _ = False"

text \<open>
  \<^verbatim>\<open>const toMs = (iso) => (iso ? new Date(iso).getTime() : 0)\<close>. The built-in date parser
  is the parameter \<open>getTime\<close>; the empty string is falsy. Every caller passes the
  non-nullable \<^verbatim>\<open>updated_at\<close>.
\<close>

definition toMs :: "(string \<Rightarrow> ms) \<Rightarrow> string \<Rightarrow> ms" where
  "toMs getTime s = (if s \<noteq> [] then getTime s else Ms 0)"

definition isIncomingNewer :: "(string \<Rightarrow> ms) \<Rightarrow> TaskRecord \<Rightarrow> TaskRecord option \<Rightarrow> bool" where
  "isIncomingNewer getTime incoming current =
     (case current of
        None \<Rightarrow> True
      | Some cur \<Rightarrow> js_gt (toMs getTime (t_updated_at incoming)) (toMs getTime (t_updated_at cur)))"

text \<open>One turn of the loop of \<^verbatim>\<open>upsertTasksFromRemote\<close>.\<close>

definition upsert_step :: "(string \<Rightarrow> ms) \<Rightarrow> TaskRecord list \<Rightarrow> TaskRecord \<Rightarrow> TaskRecord list" where
  "upsert_step getTime tasks incoming =
     (let current = table_get t_id (t_id incoming) tasks
      in if isIncomingNewer getTime incoming current then table_put t_id incoming tasks else tasks)"

fun upsertTasksFromRemote :: "(string \<Rightarrow> ms) \<Rightarrow> TaskRecord list \<Rightarrow> TaskRecord list \<Rightarrow> TaskRecord list" where
  "upsertTasksFromRemote getTime [] tasks = tasks"
| "upsertTasksFromRemote getTime (incoming # rest) tasks =
     upsertTasksFromRemote getTime rest (upsert_step getTime tasks incoming)"


subsection \<open>The outbox queue\<close>

datatype QueueType = upsert_task | delete_task

text \<open>\<^verbatim>\<open>payload: TaskRecord | { id: string }\<close>. A row written to a table is a value of its own.\<close>

datatype Payload = TaskPayload TaskRecord | IdPayload string

record QueueOperation =
  q_id :: string
  q_user_id :: string
  q_type :: QueueType
  q_task_id :: string
  q_payload :: Payload
  q_created_at :: string
  q_retries :: int

record MetaRecord =
  m_key :: string
  m_value :: string

text \<open>The three tables of the local database that the sync engine uses.\<close>

record LocalDB =
  tasks :: "TaskRecord list"
  queue :: "QueueOperation list"
  meta :: "MetaRecord list"

definition SYNC_BATCH_SIZE :: nat where
  "SYNC_BATCH_SIZE = 100"

text \<open>
  \<^verbatim>\<open>crypto.randomUUID()\<close> and \<^verbatim>\<open>nowIso()\<close> are read from outside: the caller of the model
  supplies the identifier \<open>uuid\<close> and the clock reading \<open>now\<close>.
\<close>

definition enqueueTaskUpsert :: "string \<Rightarrow> string \<Rightarrow> TaskRecord \<Rightarrow> LocalDB \<Rightarrow> LocalDB" where
  "enqueueTaskUpsert uuid now task db =
     db\<lparr>queue := table_put q_id
        \<lparr>q_id = uuid, q_user_id = t_user_id task, q_type = upsert_task, q_task_id = t_id task,
         q_payload = TaskPayload task, q_created_at = now, q_retries = 0\<rparr> (queue db)\<rparr>"

definition enqueueTaskDelete :: "string \<Rightarrow> string \<Rightarrow> string \<Rightarrow> string \<Rightarrow> LocalDB \<Rightarrow> LocalDB" where
  "enqueueTaskDelete uuid now userId taskId db =
     db\<lparr>queue := table_put q_id
        \<lparr>q_id = uuid, q_user_id = userId, q_type = delete_task, q_task_id = taskId,
         q_payload = IdPayload taskId, q_created_at = now, q_retries = 0\<rparr> (queue db)\<rparr>"

definition putTaskLocal :: "string \<Rightarrow> string \<Rightarrow> TaskRecord \<Rightarrow> bool \<Rightarrow> LocalDB \<Rightarrow> LocalDB" where
  "putTaskLocal uuid now task shouldQueue db =
     (let db1 = db\<lparr>tasks := table_put t_id task (tasks db)\<rparr>
      in if shouldQueue then enqueueTaskUpsert uuid now task db1 else db1)"

definition deleteTaskLocal :: "string \<Rightarrow> string \<Rightarrow> string \<Rightarrow> string \<Rightarrow> bool \<Rightarrow> LocalDB \<Rightarrow> LocalDB" where
  "deleteTaskLocal uuid now userId taskId shouldQueue db =
     (let db1 = db\<lparr>tasks := table_delete t_id taskId (tasks db)\<rparr>
      in if shouldQueue then enqueueTaskDelete uuid now userId taskId db1 else db1)"

text \<open>
  \<^verbatim>\<open>db.queue.where('user_id').equals(userId).sortBy('created_at')\<close>: the owner's rows in
  key order, then a stable sort on the ISO string \<^verbatim>\<open>created_at\<close>;
  \<^verbatim>\<open>rows.slice(0, SYNC_BATCH_SIZE)\<close> keeps the first hundred.
\<close>

definition getPendingQueue :: "string \<Rightarrow> QueueOperation list \<Rightarrow> QueueOperation list" where
  "getPendingQueue userId q =
     take SYNC_BATCH_SIZE (sort_key q_created_at (filter (\<lambda>r. q_user_id r = userId) q))"

definition markQueueProcessed :: "string \<Rightarrow> QueueOperation list \<Rightarrow> QueueOperation list" where
  "markQueueProcessed queueId q = table_delete q_id queueId q"

definition bumpQueueRetry :: "string \<Rightarrow> QueueOperation list \<Rightarrow> QueueOperation list" where
  "bumpQueueRetry queueId q =
     (case table_get q_id queueId q of
        None \<Rightarrow> q
      | Some item \<Rightarrow> table_put q_id (item\<lparr>q_retries := q_retries item + 1\<rparr>) q)"

definition setMetaValue :: "string \<Rightarrow> string \<Rightarrow> MetaRecord list \<Rightarrow> MetaRecord list" where
  "setMetaValue k v m = table_put m_key \<lparr>m_key = k, m_value = v\<rparr> m"

definition getMetaValue :: "string \<Rightarrow> MetaRecord list \<Rightarrow> string option" where
  "getMetaValue k m = map_option m_value (table_get m_key k m)"

section \<open>The sync engine (src/src/lib/sync.ts)\<close>

definition lastPullKey :: "string \<Rightarrow> string" where
  "lastPullKey userId = ''tasks_last_pull_'' @ userId"

text \<open>
  \<^verbatim>\<open>Partial<TaskRecord>\<close> as it arrives in JSON: a field that is absent or null is \<open>None\<close>;
  \<^verbatim>\<open>status\<close> and \<^verbatim>\<open>priority\<close> are whatever text the row carries; \<^verbatim>\<open>tags\<close> is \<open>None\<close> when
  it is not an array.
\<close>

record RawTask =
  r_id :: "string option"
  r_user_id :: "string option"
  r_title :: "string option"
  r_status :: "string option"
  r_priority :: "string option"
  r_tags :: "string list option"
  r_scheduled_date :: "string option"
  r_due_time :: "string option"
  r_estimate_minutes :: "int option"
  r_energy :: "string option"
  r_created_at :: "string option"
  r_updated_at :: "string option"
  r_completed_at :: "string option"
  r_original_scheduled_date :: "string option"
  r_timezone :: "string option"
  r_top3_slot :: "int option"
  r_last_notified_at :: "string option"

text \<open>
  What one call of \<^verbatim>\<open>normalizeTaskRecord\<close> may read from outside: \<^verbatim>\<open>crypto.randomUUID()\<close>
  and the two \<^verbatim>\<open>new Date().toISOString()\<close>.
\<close>

record Fresh =
  randomUUID :: string
  now_created :: string
  now_updated :: string

text \<open>\<^verbatim>\<open>a ?? b\<close>\<close>

definition nullish :: "'a option \<Rightarrow> 'a \<Rightarrow> 'a" where
  "nullish a b = (case a of None \<Rightarrow> b | Some v \<Rightarrow> v)"

definition normalizeTaskRecord :: "Fresh \<Rightarrow> RawTask \<Rightarrow> TaskRecord" where
  "normalizeTaskRecord f raw =
     \<lparr>t_id = nullish (r_id raw) (randomUUID f),
      t_user_id = nullish (r_user_id raw) [],
      t_title = nullish (r_title raw) [],
      t_status = (if r_status raw = Some ''done'' then Done else Todo),
      t_priority =
        (if r_priority raw = Some ''high'' then High
         else if r_priority raw = Some ''medium'' then Medium
         else Normal),
      t_tags = nullish (r_tags raw) [],
      t_scheduled_date = r_scheduled_date raw,
      t_due_time = r_due_time raw,
      t_estimate_minutes = r_estimate_minutes raw,
      t_energy = r_energy raw,
      t_created_at = nullish (r_created_at raw) (now_created f),
      t_updated_at = nullish (r_updated_at raw) (now_updated f),
      t_completed_at = r_completed_at raw,
      t_original_scheduled_date = r_original_scheduled_date raw,
      t_timezone = nullish (r_timezone raw) ''UTC'',
      t_top3_slot = r_top3_slot raw,
      t_last_notified_at = r_last_notified_at raw\<rparr>"

text \<open>The JSON text of the two enumerations.\<close>

fun status_text :: "TaskStatus \<Rightarrow> string" where
  "status_text Todo = ''todo''"
| "status_text Done = ''done''"

fun priority_text :: "TaskPriority \<Rightarrow> string" where
  "priority_text High = ''high''"
| "priority_text Medium = ''medium''"
| "priority_text Normal = ''normal''"

text \<open>
  \<^verbatim>\<open>operation.payload as TaskRecord\<close>: the cast reads the payload as a row; of a
  \<^verbatim>\<open>{ id }\<close> payload only the id is there.
\<close>

definition raw_of_task :: "TaskRecord \<Rightarrow> RawTask" where
  "raw_of_task t =
     \<lparr>r_id = Some (t_id t), r_user_id = Some (t_user_id t), r_title = Some (t_title t),
      r_status = Some (status_text (t_status t)), r_priority = Some (priority_text (t_priority t)),
      r_tags = Some (t_tags t), r_scheduled_date = t_scheduled_date t, r_due_time = t_due_time t,
      r_estimate_minutes = t_estimate_minutes t, r_energy = t_energy t,
      r_created_at = Some (t_created_at t), r_updated_at = Some (t_updated_at t),
      r_completed_at = t_completed_at t,
      r_original_scheduled_date = t_original_scheduled_date t,
      r_timezone = Some (t_timezone t), r_top3_slot = t_top3_slot t,
      r_last_notified_at = t_last_notified_at t\<rparr>"

definition raw_of_id :: "string \<Rightarrow> RawTask" where
  "raw_of_id i =
     \<lparr>r_id = Some i, r_user_id = None, r_title = None, r_status = None, r_priority = None,
      r_tags = None, r_scheduled_date = None, r_due_time = None, r_estimate_minutes = None,
      r_energy = None, r_created_at = None, r_updated_at = None, r_completed_at = None,
      r_original_scheduled_date = None, r_timezone = None, r_top3_slot = None,
      r_last_notified_at = None\<rparr>"

fun raw_of_payload :: "Payload \<Rightarrow> RawTask" where
  "raw_of_payload (TaskPayload t) = raw_of_task t"
| "raw_of_payload (IdPayload i) = raw_of_id i"

subsection \<open>flushQueue\<close>

text \<open>The request that the loop body sends for one operation.\<close>

datatype remote_call = Upsert TaskRecord | Delete string string

definition remote_request :: "Fresh \<Rightarrow> QueueOperation \<Rightarrow> remote_call" where
  "remote_request f operation =
     (case q_type operation of
        upsert_task \<Rightarrow> Upsert (normalizeTaskRecord f (raw_of_payload (q_payload operation)))
      | delete_task \<Rightarrow> Delete (q_task_id operation) (q_user_id operation))"

text \<open>
  The loop of \<^verbatim>\<open>flushQueue\<close> over the batch read at the start. \<open>net i call\<close> tells whether
  the \<open>i\<close>-th request of this flush comes back without error; \<open>fresh i\<close> is what the
  \<open>i\<close>-th turn reads from outside. The state is the queue table and the requests sent so
  far. A failed request throws, the handler bumps the retry count and \<^verbatim>\<open>break\<close>s.
\<close>

fun flush_loop ::
  "(nat \<Rightarrow> remote_call \<Rightarrow> bool) \<Rightarrow> (nat \<Rightarrow> Fresh) \<Rightarrow> nat \<Rightarrow> QueueOperation list \<Rightarrow>
   QueueOperation list \<times> remote_call list \<Rightarrow> QueueOperation list \<times> remote_call list" where
  "flush_loop net fresh i [] st = st"
| "flush_loop net fresh i (operation # rest) (q, sent) =
     (let call = remote_request (fresh i) operation
      in if net i call
         then flush_loop net fresh (Suc i) rest (markQueueProcessed (q_id operation) q, sent @ [call])
         else (bumpQueueRetry (q_id operation) q, sent @ [call]))"

definition flushQueue ::
  "(nat \<Rightarrow> remote_call \<Rightarrow> bool) \<Rightarrow> (nat \<Rightarrow> Fresh) \<Rightarrow> string \<Rightarrow> QueueOperation list \<Rightarrow>
   QueueOperation list \<times> remote_call list" where
  "flushQueue net fresh userId q = flush_loop net fresh 0 (getPendingQueue userId q) (q, [])"

subsection \<open>pullUpdates\<close>

text \<open>
  The request built by \<^verbatim>\<open>pullUpdates\<close>,
  \<^verbatim>\<open>.eq('user_id', userId).gt('updated_at', since).order('updated_at', { ascending: true }).limit(1000)\<close>,
  answered on the rows of the remote table as they are printed in JSON. \<open>ts\<close> reads the
  instant that a timestamp text denotes for the remote store, in microseconds. A row whose
  \<^verbatim>\<open>user_id\<close> or \<^verbatim>\<open>updated_at\<close> is null passes neither filter.
\<close>

definition pull_match :: "(string \<Rightarrow> int) \<Rightarrow> string \<Rightarrow> string \<Rightarrow> RawTask \<Rightarrow> (int \<times> RawTask) option" where
  "pull_match ts userId since row =
     (case r_user_id row of
        None \<Rightarrow> None
      | Some u \<Rightarrow>
          (case r_updated_at row of
             None \<Rightarrow> None
           | Some stamp \<Rightarrow> if u = userId \<and> ts stamp > ts since then Some (ts stamp, row) else None))"

definition select_tasks_since :: "(string \<Rightarrow> int) \<Rightarrow> string \<Rightarrow> string \<Rightarrow> RawTask list \<Rightarrow> RawTask list" where
  "select_tasks_since ts userId since rows =
     take 1000 (map snd (sort_key fst (List.map_filter (pull_match ts userId since) rows)))"


text \<open>\<^verbatim>\<open>xs.at(-1)\<close>\<close>

definition at_last :: "'a list \<Rightarrow> 'a option" where
  "at_last xs = (if xs = [] then None else Some (last xs))"

text \<open>\<^verbatim>\<open>(data ?? []).map((row) => normalizeTaskRecord(row as TaskRecord))\<close>\<close>

definition normalize_rows :: "(nat \<Rightarrow> Fresh) \<Rightarrow> RawTask list \<Rightarrow> TaskRecord list" where
  "normalize_rows fresh data = map (\<lambda>(i, row). normalizeTaskRecord (fresh i) row) (enumerate 0 data)"

text \<open>
  \<open>remote\<close> is the remote store when the request arrives: an error, or the rows of its
  task table. An error is thrown to the caller (\<open>Inl\<close>).
\<close>

definition pullUpdates ::
  "(string \<Rightarrow> ms) \<Rightarrow> (string \<Rightarrow> int) \<Rightarrow> (nat \<Rightarrow> Fresh) \<Rightarrow> string + RawTask list \<Rightarrow> string \<Rightarrow>
   LocalDB \<Rightarrow> string + LocalDB" where
  "pullUpdates getTime ts fresh remote userId db =
     (let since = nullish (getMetaValue (lastPullKey userId) (meta db)) ''1970-01-01T00:00:00.000Z''
      in case remote of
           Inl error \<Rightarrow> Inl error
         | Inr rows \<Rightarrow>
             (let normalized = normalize_rows fresh (select_tasks_since ts userId since rows);
                  db1 = db\<lparr>tasks := upsertTasksFromRemote getTime normalized (tasks db)\<rparr>
              in Inr (case at_last normalized of
                        None \<Rightarrow> db1
                      | Some row \<Rightarrow>
                          if t_updated_at row \<noteq> []
                          then db1\<lparr>meta := setMetaValue (lastPullKey userId) (t_updated_at row) (meta db1)\<rparr>
                          else db1)))"

definition syncNow ::
  "(nat \<Rightarrow> remote_call \<Rightarrow> bool) \<Rightarrow> (nat \<Rightarrow> Fresh) \<Rightarrow> (string \<Rightarrow> ms) \<Rightarrow> (string \<Rightarrow> int) \<Rightarrow>
   (nat \<Rightarrow> Fresh) \<Rightarrow> string + RawTask list \<Rightarrow> string \<Rightarrow> LocalDB \<Rightarrow> string + LocalDB" where
  "syncNow net fresh_flush getTime ts fresh_pull remote userId db =
     pullUpdates getTime ts fresh_pull remote userId
       (db\<lparr>queue := fst (flushQueue net fresh_flush userId (queue db))\<rparr>)"

section \<open>The application component (src/unnamed/part_000)\<close>

subsection \<open>updateTask\<close>

text \<open>
  \<^verbatim>\<open>Partial<TaskRecord>\<close> as a patch written in the program: a key is there (\<open>Some\<close>) or
  not; a nullable field that is there may hold null.
\<close>

record TaskPatch =
  p_id :: "string option"
  p_user_id :: "string option"
  p_title :: "string option"
  p_status :: "TaskStatus option"
  p_priority :: "TaskPriority option"
  p_tags :: "string list option"
  p_scheduled_date :: "string option option"
  p_due_time :: "string option option"
  p_estimate_minutes :: "int option option"
  p_energy :: "string option option"
  p_created_at :: "string option"
  p_updated_at :: "string option"
  p_completed_at :: "string option option"
  p_original_scheduled_date :: "string option option"
  p_timezone :: "string option"
  p_top3_slot :: "int option option"
  p_last_notified_at :: "string option option"

text \<open>\<^verbatim>\<open>{ ...source, ...patch }\<close>\<close>

definition spread :: "TaskRecord \<Rightarrow> TaskPatch \<Rightarrow> TaskRecord" where
  "spread source patch =
     \<lparr>t_id = nullish (p_id patch) (t_id source),
      t_user_id = nullish (p_user_id patch) (t_user_id source),
      t_title = nullish (p_title patch) (t_title source),
      t_status = nullish (p_status patch) (t_status source),
      t_priority = nullish (p_priority patch) (t_priority source),
      t_tags = nullish (p_tags patch) (t_tags source),
      t_scheduled_date = nullish (p_scheduled_date patch) (t_scheduled_date source),
      t_due_time = nullish (p_due_time patch) (t_due_time source),
      t_estimate_minutes = nullish (p_estimate_minutes patch) (t_estimate_minutes source),
      t_energy = nullish (p_energy patch) (t_energy source),
      t_created_at = nullish (p_created_at patch) (t_created_at source),
      t_updated_at = nullish (p_updated_at patch) (t_updated_at source),
      t_completed_at = nullish (p_completed_at patch) (t_completed_at source),
      t_original_scheduled_date =
        nullish (p_original_scheduled_date patch) (t_original_scheduled_date source),
      t_timezone = nullish (p_timezone patch) (t_timezone source),
      t_top3_slot = nullish (p_top3_slot patch) (t_top3_slot source),
      t_last_notified_at = nullish (p_last_notified_at patch) (t_last_notified_at source)\<rparr>"

text \<open>\<^verbatim>\<open>a || b\<close> on a nullable string: null and the empty string are falsy.\<close>

definition truthy_or :: "string option \<Rightarrow> string \<Rightarrow> string" where
  "truthy_or a b = (case a of None \<Rightarrow> b | Some s \<Rightarrow> if s \<noteq> [] then s else b)"

text \<open>
  The record \<^verbatim>\<open>next\<close> that \<^verbatim>\<open>updateTask\<close> writes; \<open>stamp_updated\<close> and \<open>stamp_completed\<close> are
  its two readings of \<^verbatim>\<open>nowIso()\<close>.
\<close>

definition updateTask_next :: "string \<Rightarrow> string \<Rightarrow> TaskRecord \<Rightarrow> TaskPatch \<Rightarrow> TaskRecord" where
  "updateTask_next stamp_updated stamp_completed source patch =
     (let next0 = (spread source patch)\<lparr>t_updated_at := stamp_updated\<rparr>;
          next1 = (if p_status patch = Some Done
                   then next0\<lparr>t_completed_at := Some (truthy_or (t_completed_at source) stamp_completed)\<rparr>
                   else next0)
      in if p_status patch = Some Todo then next1\<lparr>t_completed_at := None\<rparr> else next1)"

text \<open>
  \<open>view\<close> is the component's \<^verbatim>\<open>tasks\<close> state; a task id that is not in it ends the call.
\<close>

definition updateTask ::
  "string \<Rightarrow> string \<Rightarrow> string \<Rightarrow> string \<Rightarrow> TaskRecord list \<Rightarrow> string \<Rightarrow> TaskPatch \<Rightarrow> LocalDB \<Rightarrow> LocalDB" where
  "updateTask uuid stamp_queued stamp_updated stamp_completed view taskId patch db =
     (case find (\<lambda>task. t_id task = taskId) view of
        None \<Rightarrow> db
      | Some source \<Rightarrow>
          putTaskLocal uuid stamp_queued (updateTask_next stamp_updated stamp_completed source patch) True db)"

subsection \<open>The coupling of status and completion time\<close>

text \<open>\<^verbatim>\<open>completed_at\<close> is non-null exactly when \<^verbatim>\<open>status\<close> is \<^verbatim>\<open>done\<close>, on a record and on a raw row.\<close>

definition completed_iff_done :: "TaskRecord \<Rightarrow> bool" where
  "completed_iff_done t = ((t_completed_at t \<noteq> None) = (t_status t = Done))"

definition raw_completed_iff_done :: "RawTask \<Rightarrow> bool" where
  "raw_completed_iff_done raw = ((r_completed_at raw \<noteq> None) = (r_status raw = Some ''done''))"

subsection \<open>fireSync and its triggers\<close>

text \<open>
  A call of \<^verbatim>\<open>syncNow\<close> that has been started and has not finished is either awaiting
  \<^verbatim>\<open>flushQueue\<close> or awaiting \<^verbatim>\<open>pullUpdates\<close>. \<open>inFlight\<close> lists the calls that the event
  loop holds; the other three fields are what \<^verbatim>\<open>fireSync\<close> reads and writes.
\<close>

datatype stage = Flushing | Pulling

record AppState =
  hasSupabaseClientConfig :: bool
  isOnline :: bool
  syncInProgress :: bool
  inFlight :: "stage list"

text \<open>
  \<^verbatim>\<open>fireSync\<close> up to its first \<^verbatim>\<open>await\<close>: the early return, \<^verbatim>\<open>setSyncInProgress(true)\<close>, and
  the start of \<^verbatim>\<open>syncNow\<close>.
\<close>

definition fireSync :: "AppState \<Rightarrow> AppState" where
  "fireSync st =
     (if \<not> hasSupabaseClientConfig st \<or> \<not> isOnline st then st
      else st\<lparr>syncInProgress := True, inFlight := inFlight st @ [Flushing]\<rparr>)"

text \<open>
  The \<open>i\<close>-th call in flight resumes: after the flush it starts the pull; after the pull
  \<^verbatim>\<open>fireSync\<close> runs its \<^verbatim>\<open>finally\<close> block.
\<close>

definition resume :: "nat \<Rightarrow> AppState \<Rightarrow> AppState" where
  "resume i st =
     (if i < length (inFlight st)
      then (case inFlight st ! i of
              Flushing \<Rightarrow> st\<lparr>inFlight := (inFlight st)[i := Pulling]\<rparr>
            | Pulling \<Rightarrow> st\<lparr>syncInProgress := False,
                            inFlight := take i (inFlight st) @ drop (Suc i) (inFlight st)\<rparr>)
      else st)"

text \<open>
  The events of the component: a trigger (the minute timer, the \<^verbatim>\<open>online\<close> event, a
  change-feed notification, a call after a local edit) calls \<^verbatim>\<open>fireSync\<close>; the sync button
  is \<^verbatim>\<open>disabled={!sessionUserId || syncInProgress}\<close>.
\<close>

datatype app_event = Trigger | Button | Resume nat

fun app_step :: "AppState \<Rightarrow> app_event \<Rightarrow> AppState" where
  "app_step st Trigger = fireSync st"
| "app_step st Button = (if syncInProgress st then st else fireSync st)"
| "app_step st (Resume i) = resume i st"

definition app_run :: "app_event list \<Rightarrow> AppState \<Rightarrow> AppState" where
  "app_run events st = foldl app_step st events"

section \<open>The remote schema and its functions (src/supabase/migrations)\<close>

text \<open>
  A \<^verbatim>\<open>date\<close> and a \<^verbatim>\<open>time\<close> by the fields that \<^verbatim>\<open>extract\<close> reads; the seconds of a time
  carry its fraction and are counted in microseconds. A \<^verbatim>\<open>timestamptz\<close> is an instant, in
  microseconds since the epoch.
\<close>

record pg_date =
  d_year :: int
  d_month :: int
  d_day :: int

record pg_time =
  tm_hour :: int
  tm_minute :: int
  tm_second :: int

text \<open>A row of \<^verbatim>\<open>public.tasks\<close>.\<close>

record TaskRow =
  s_id :: string
  s_user_id :: string
  s_title :: string
  s_status :: string
  s_priority :: string
  s_tags :: "string list"
  s_scheduled_date :: "pg_date option"
  s_due_time :: "pg_time option"
  s_estimate_minutes :: "int option"
  s_energy :: "string option"
  s_created_at :: int
  s_updated_at :: int
  s_completed_at :: "int option"
  s_original_scheduled_date :: "pg_date option"
  s_timezone :: string
  s_top3_slot :: "int option"
  s_last_notified_at :: "int option"

text \<open>
  \<^verbatim>\<open>make_timestamptz(year, month, day, hour, min, sec, timezone)\<close> belongs to the database:
  it is a parameter \<open>mk\<close>, which gives the instant or raises (\<open>Inl\<close>) on a zone name or a
  field it does not accept.
\<close>

type_synonym make_timestamptz = "int \<Rightarrow> int \<Rightarrow> int \<Rightarrow> int \<Rightarrow> int \<Rightarrow> int \<Rightarrow> string \<Rightarrow> string + int"

text \<open>\<^verbatim>\<open>coalesce(nullif(task_row.timezone, ''), 'UTC')\<close> on the non-null column \<^verbatim>\<open>timezone\<close>.\<close>

definition zone_or_utc :: "string \<Rightarrow> string" where
  "zone_or_utc tz = (if tz = [] then ''UTC'' else tz)"

text \<open>\<^verbatim>\<open>task_due_at_utc\<close>: null when the date or the time is null.\<close>

definition task_due_at_utc :: "make_timestamptz \<Rightarrow> TaskRow \<Rightarrow> string + int option" where
  "task_due_at_utc mk task_row =
     (case s_scheduled_date task_row of
        None \<Rightarrow> Inr None
      | Some d \<Rightarrow>
          (case s_due_time task_row of
             None \<Rightarrow> Inr None
           | Some t \<Rightarrow>
               (case mk (d_year d) (d_month d) (d_day d) (tm_hour t) (tm_minute t) (tm_second t)
                        (zone_or_utc (s_timezone task_row)) of
                  Inl e \<Rightarrow> Inl e
                | Inr stamp \<Rightarrow> Inr (Some stamp))))"

text \<open>\<^verbatim>\<open>make_interval(mins => m)\<close>, in microseconds.\<close>

definition make_interval_mins :: "int \<Rightarrow> int" where
  "make_interval_mins m = m * 60000000"

text \<open>The common table expression \<^verbatim>\<open>bounds\<close>: \<^verbatim>\<open>start_at\<close> and \<^verbatim>\<open>end_at\<close>.\<close>

definition bounds :: "int \<Rightarrow> int \<Rightarrow> int \<times> int" where
  "bounds now window_minutes = (now, now + make_interval_mins (max window_minutes 1))"

text \<open>A row of the result of \<^verbatim>\<open>get_due_tasks\<close>.\<close>

record DueRow =
  dr_id :: string
  dr_user_id :: string
  dr_title :: string
  dr_scheduled_date :: "pg_date option"
  dr_due_time :: "pg_time option"
  dr_timezone :: string
  dr_due_at :: int

text \<open>
  The \<^verbatim>\<open>where\<close> clause and the select list on one row, the conjuncts in the order of the
  text: \<open>Inr None\<close> when the row is not selected, \<open>Inl\<close> when the due instant raises.
\<close>

definition due_select :: "make_timestamptz \<Rightarrow> int \<Rightarrow> int \<Rightarrow> TaskRow \<Rightarrow> string + DueRow option" where
  "due_select mk start_at end_at t =
     (if s_status t = ''todo'' \<and> s_scheduled_date t \<noteq> None \<and> s_due_time t \<noteq> None
      then (case task_due_at_utc mk t of
              Inl e \<Rightarrow> Inl e
            | Inr None \<Rightarrow> Inr None
            | Inr (Some due) \<Rightarrow>
                if due \<ge> start_at \<and> due < end_at \<and>
                   (case s_last_notified_at t of None \<Rightarrow> True | Some n \<Rightarrow> n < due)
                then Inr (Some \<lparr>dr_id = s_id t, dr_user_id = s_user_id t, dr_title = s_title t,
                                dr_scheduled_date = s_scheduled_date t, dr_due_time = s_due_time t,
                                dr_timezone = s_timezone t, dr_due_at = due\<rparr>)
                else Inr None)
      else Inr None)"

text \<open>The scan of a table: the first row that raises aborts the statement.\<close>

fun scan_rows :: "('a \<Rightarrow> string + 'b option) \<Rightarrow> 'a list \<Rightarrow> string + 'b list" where
  "scan_rows f [] = Inr []"
| "scan_rows f (x # xs) =
     (case f x of
        Inl e \<Rightarrow> Inl e
      | Inr r \<Rightarrow>
          (case scan_rows f xs of
             Inl e \<Rightarrow> Inl e
           | Inr rs \<Rightarrow> Inr (case r of None \<Rightarrow> rs | Some y \<Rightarrow> y # rs)))"

text \<open>\<^verbatim>\<open>get_due_tasks(window_minutes)\<close> at the time \<open>now\<close>, \<^verbatim>\<open>order by due_at asc\<close>.\<close>

definition get_due_tasks :: "make_timestamptz \<Rightarrow> int \<Rightarrow> int \<Rightarrow> TaskRow list \<Rightarrow> string + DueRow list" where
  "get_due_tasks mk now window_minutes rows =
     (case scan_rows (due_select mk (fst (bounds now window_minutes)) (snd (bounds now window_minutes))) rows of
        Inl e \<Rightarrow> Inl e
      | Inr selected \<Rightarrow> Inr (sort_key dr_due_at selected))"

text \<open>
  \<^verbatim>\<open>mark_tasks_notified(task_ids)\<close> at the time \<open>now\<close>; the trigger \<^verbatim>\<open>tasks_set_updated_at\<close>
  writes the same \<^verbatim>\<open>now()\<close> into \<^verbatim>\<open>updated_at\<close>.
\<close>

definition mark_tasks_notified :: "int \<Rightarrow> string list \<Rightarrow> TaskRow list \<Rightarrow> TaskRow list" where
  "mark_tasks_notified now task_ids rows =
     map (\<lambda>t. if s_id t \<in> set task_ids
               then t\<lparr>s_last_notified_at := Some now, s_updated_at := now\<rparr> else t) rows"

subsection \<open>The due instant\<close>



section \<open>The scheduled dispatcher (src/api/cron/dispatch-due.ts)\<close>

text \<open>A JavaScript number: a finite value, an infinity or NaN.\<close>

datatype jsnumber = Finite rat | PosInfinity | NegInfinity | NotANumber

fun isFinite :: "jsnumber \<Rightarrow> bool" where
  "isFinite (Finite x) = True"
| "isFinite _ = False"

text \<open>A query parameter of the request: one string, or an array when the key is repeated.\<close>

datatype query_value = One string | Many "string list"

record Request =
  headers :: "string \<rightharpoonup> string"
  query_window :: "query_value option"

fun join_comma :: "string list \<Rightarrow> string" where
  "join_comma [] = []"
| "join_comma [x] = x"
| "join_comma (x # y # ys) = x @ '','' @ join_comma (y # ys)"

text \<open>
  \<^verbatim>\<open>Number(request.query.window ?? 5)\<close>. The conversion of a string to a number is the
  parameter \<open>toNumber\<close>; an array is converted through its \<^verbatim>\<open>toString()\<close>.
\<close>

definition windowMinutes :: "(string \<Rightarrow> jsnumber) \<Rightarrow> query_value option \<Rightarrow> jsnumber" where
  "windowMinutes toNumber q =
     (case q of
        None \<Rightarrow> Finite 5
      | Some (One s) \<Rightarrow> toNumber s
      | Some (Many xs) \<Rightarrow> toNumber (join_comma xs))"

text \<open>\<^verbatim>\<open>Number.isFinite(windowMinutes) ? windowMinutes : 5\<close>\<close>

definition window_minutes_arg :: "jsnumber \<Rightarrow> jsnumber" where
  "window_minutes_arg n = (if isFinite n then n else Finite 5)"

text \<open>A string or undefined in a condition: undefined and the empty string are falsy.\<close>

definition truthy :: "string option \<Rightarrow> bool" where
  "truthy v = (case v of None \<Rightarrow> False | Some s \<Rightarrow> s \<noteq> [])"

text \<open>\<^verbatim>\<open>s.replace(pat, rep)\<close> with a string pattern: the first occurrence only.\<close>

fun replace_first :: "string \<Rightarrow> string \<Rightarrow> string \<Rightarrow> string" where
  "replace_first pat rep [] = (if pat = [] then rep else [])"
| "replace_first pat rep (c # cs) =
     (if prefix pat (c # cs) then rep @ drop (length pat) (c # cs)
      else c # replace_first pat rep cs)"

definition canRun :: "string option \<Rightarrow> Request \<Rightarrow> bool" where
  "canRun secret request =
     (if truthy (headers request ''x-vercel-cron'') then True
      else if \<not> truthy secret then True
      else map_option (replace_first ''Bearer '' []) (headers request ''authorization'') = secret)"

text \<open>\<^verbatim>\<open>isUnsubscribedError\<close> on the \<^verbatim>\<open>statusCode\<close> of what was thrown, if it has one.\<close>

definition isUnsubscribedError :: "int option \<Rightarrow> bool" where
  "isUnsubscribedError statusCode = (statusCode = Some 404 \<or> statusCode = Some 410)"

record DueTaskRow =
  due_id :: string
  due_user_id :: string
  due_title :: string
  due_scheduled_date :: string
  due_due_time :: string
  due_timezone :: string
  due_due_at :: string

record SubscriptionRow =
  sub_id :: string
  sub_user_id :: string
  sub_endpoint :: string
  sub_p256dh :: string
  sub_auth :: string

record ServerPushSubscription =
  sp_endpoint :: string
  sp_p256dh :: string
  sp_auth :: string

record PushPayload =
  pp_title :: string
  pp_body :: string
  pp_url :: string
  pp_tag :: "string option"

text \<open>What a \<^verbatim>\<open>catch\<close> of the handler receives: an \<^verbatim>\<open>Error\<close> with its message, or another value.\<close>

datatype thrown = ErrorObject string | OtherValue

text \<open>How one \<^verbatim>\<open>sendWebPush\<close> ends: it returns, or it throws a value with or without a \<^verbatim>\<open>statusCode\<close>.\<close>

datatype push_outcome = Sent | Threw "int option"

text \<open>The requests of a run, in the order they are made; a push with how it ended.\<close>

datatype event =
    GetDueTasks jsnumber
  | SelectSubscriptions "string list"
  | SendWebPush ServerPushSubscription PushPayload push_outcome
  | DeleteSubscription string
  | MarkTasksNotified "string list"

text \<open>
  What is outside the handler: the configured secret, the number conversion, the answers
  of the database and of the push service. \<open>sendWebPush\<close> may depend on everything that
  the run has done so far.
\<close>

record World =
  CRON_SECRET :: "string option"
  StringToNumber :: "string \<Rightarrow> jsnumber"
  get_due_tasks_reply :: "jsnumber \<Rightarrow> thrown + DueTaskRow list"
  push_subscriptions :: "SubscriptionRow list"
  select_subscriptions_error :: "thrown option"
  sendWebPush :: "event list \<Rightarrow> ServerPushSubscription \<Rightarrow> PushPayload \<Rightarrow> push_outcome"
  mark_tasks_notified_error :: "thrown option"

text \<open>The texts are UTF-8: the title is \<^verbatim>\<open>T\<close>, a circumflexed a, \<^verbatim>\<open>che\<close>, a grave a, and so on; the body holds a bullet.\<close>

definition push_payload :: "DueTaskRow \<Rightarrow> PushPayload" where
  "push_payload task =
     \<lparr>pp_title = ''T'' @ [CHR 0xC3, CHR 0xA2] @ ''che '' @ [CHR 0xC3, CHR 0xA0] @ '' lancer maintenant'',
      pp_body = due_title task @ '' '' @ [CHR 0xE2, CHR 0x80, CHR 0xA2] @ '' '' @
                due_scheduled_date task @ '' '' @ take 5 (due_due_time task),
      pp_url = ''/?tab=today&task='' @ due_id task,
      pp_tag = Some (''task-'' @ due_id task)\<rparr>"

definition push_target :: "SubscriptionRow \<Rightarrow> ServerPushSubscription" where
  "push_target sub = \<lparr>sp_endpoint = sub_endpoint sub, sp_p256dh = sub_p256dh sub, sp_auth = sub_auth sub\<rparr>"

text \<open>\<^verbatim>\<open>Set.prototype.add\<close> on a set kept in insertion order.\<close>

definition set_add :: "'a \<Rightarrow> 'a list \<Rightarrow> 'a list" where
  "set_add x xs = (if x \<in> set xs then xs else xs @ [x])"

text \<open>The map \<^verbatim>\<open>byUser\<close>; a user without an entry reads as the empty array.\<close>

definition group_by_user :: "SubscriptionRow list \<Rightarrow> string \<Rightarrow> SubscriptionRow list" where
  "group_by_user subscriptions =
     fold (\<lambda>sub m. m(sub_user_id sub := m (sub_user_id sub) @ [sub])) subscriptions (\<lambda>u. [])"

text \<open>
  The inner loop over the devices of one task. The state is
  \<^verbatim>\<open>deliveredToAtLeastOneDevice\<close>, \<^verbatim>\<open>sentCount\<close> and the requests made so far.
\<close>

fun send_to_devices ::
  "World \<Rightarrow> DueTaskRow \<Rightarrow> SubscriptionRow list \<Rightarrow> bool \<times> nat \<times> event list \<Rightarrow> bool \<times> nat \<times> event list" where
  "send_to_devices w task [] st = st"
| "send_to_devices w task (sub # rest) (delivered, sentCount, evs) =
     (case sendWebPush w evs (push_target sub) (push_payload task) of
        Sent \<Rightarrow>
          send_to_devices w task rest
            (True, sentCount + 1, evs @ [SendWebPush (push_target sub) (push_payload task) Sent])
      | Threw statusCode \<Rightarrow>
          send_to_devices w task rest
            (delivered, sentCount,
             evs @ [SendWebPush (push_target sub) (push_payload task) (Threw statusCode)] @
               (if isUnsubscribedError statusCode then [DeleteSubscription (sub_id sub)] else [])))"

text \<open>The outer loop over the due tasks; the state is \<^verbatim>\<open>sentTaskIds\<close>, \<^verbatim>\<open>sentCount\<close> and the requests.\<close>

fun dispatch ::
  "World \<Rightarrow> (string \<Rightarrow> SubscriptionRow list) \<Rightarrow> DueTaskRow list \<Rightarrow>
   string list \<times> nat \<times> event list \<Rightarrow> string list \<times> nat \<times> event list" where
  "dispatch w byUser [] st = st"
| "dispatch w byUser (task # rest) (sentTaskIds, sentCount, evs) =
     (if byUser (due_user_id task) = [] then dispatch w byUser rest (sentTaskIds, sentCount, evs)
      else (case send_to_devices w task (byUser (due_user_id task)) (False, sentCount, evs) of
              (delivered, sentCount', evs') \<Rightarrow>
                dispatch w byUser rest
                  (if delivered then set_add (due_id task) sentTaskIds else sentTaskIds,
                   sentCount', evs')))"

datatype body = ErrorBody string | NoDueTasks | Summary nat nat nat

text \<open>\<^verbatim>\<open>error instanceof Error ? error.message : 'Cron dispatch failed'\<close>\<close>

definition message_of :: "thrown \<Rightarrow> string" where
  "message_of e = (case e of ErrorObject m \<Rightarrow> m | OtherValue \<Rightarrow> ''Cron dispatch failed'')"

text \<open>The handler: the response (status and body) and the requests it has made.\<close>

definition handler :: "World \<Rightarrow> Request \<Rightarrow> (nat \<times> body) \<times> event list" where
  "handler w request =
     (if \<not> canRun (CRON_SECRET w) request then ((401, ErrorBody ''Unauthorized''), [])
      else
        (let arg = window_minutes_arg (windowMinutes (StringToNumber w) (query_window request))
         in case get_due_tasks_reply w arg of
              Inl e \<Rightarrow> ((500, ErrorBody (message_of e)), [GetDueTasks arg])
            | Inr due \<Rightarrow>
                if due = [] then ((200, NoDueTasks), [GetDueTasks arg])
                else
                  (let userIds = fold set_add (map due_user_id due) []
                   in case select_subscriptions_error w of
                        Some e \<Rightarrow>
                          ((500, ErrorBody (message_of e)), [GetDueTasks arg, SelectSubscriptions userIds])
                      | None \<Rightarrow>
                          (case dispatch w
                                  (group_by_user (filter (\<lambda>s. sub_user_id s \<in> set userIds) (push_subscriptions w)))
                                  due ([], 0, [GetDueTasks arg, SelectSubscriptions userIds]) of
                             (sentTaskIds, sentCount, evs) \<Rightarrow>
                               if sentTaskIds \<noteq> []
                               then (case mark_tasks_notified_error w of
                                       Some e \<Rightarrow>
                                         ((500, ErrorBody (message_of e)), evs @ [MarkTasksNotified sentTaskIds])
                                     | None \<Rightarrow>
                                         ((200, Summary (length due) (length sentTaskIds) sentCount),
                                          evs @ [MarkTasksNotified sentTaskIds]))
                               else ((200, Summary (length due) (length sentTaskIds) sentCount), evs)))))"

text \<open>Readings of a list of requests: the pushes, the mark commands, and whether a task was delivered.\<close>

fun push_calls :: "event list \<Rightarrow> (ServerPushSubscription \<times> PushPayload) list" where
  "push_calls [] = []"
| "push_calls (SendWebPush target payload outcome # evs) = (target, payload) # push_calls evs"
| "push_calls (e # evs) = push_calls evs"

fun mark_calls :: "event list \<Rightarrow> string list list" where
  "mark_calls [] = []"
| "mark_calls (MarkTasksNotified ids # evs) = ids # mark_calls evs"
| "mark_calls (e # evs) = mark_calls evs"

fun delivered_in :: "event list \<Rightarrow> DueTaskRow \<Rightarrow> bool" where
  "delivered_in [] task = False"
| "delivered_in (SendWebPush target payload Sent # evs) task =
     (payload = push_payload task \<or> delivered_in evs task)"
| "delivered_in (e # evs) task = delivered_in evs task"

section \<open>Sample rows for the closed instances\<close>

abbreviation demo_task :: "string \<Rightarrow> string \<Rightarrow> string \<Rightarrow> TaskRecord" where
  "demo_task i title stamp \<equiv>
     \<lparr>t_id = i, t_user_id = ''u1'', t_title = title, t_status = Todo, t_priority = Normal,
      t_tags = [], t_scheduled_date = Some ''2026-01-05'', t_due_time = None,
      t_estimate_minutes = None, t_energy = None, t_created_at = ''2026-01-01T00:00:00.000Z'',
      t_updated_at = stamp, t_completed_at = None, t_original_scheduled_date = None,
      t_timezone = ''UTC'', t_top3_slot = None, t_last_notified_at = None\<rparr>"

text \<open>The values of \<^verbatim>\<open>new Date(s).getTime()\<close> on the three strings used below.\<close>

abbreviation demo_getTime :: "string \<Rightarrow> ms" where
  "demo_getTime \<equiv> (\<lambda>s. if s = ''2026-01-01T00:00:00.000Z'' then Ms 1767225600000
     else if s = ''2026-01-02T00:00:00.000Z'' then Ms 1767312000000
     else if s = ''2026-01-02T01:00:00+01:00'' then Ms 1767312000000 else NaN)"

abbreviation demo_op :: "string \<Rightarrow> string \<Rightarrow> string \<Rightarrow> QueueOperation" where
  "demo_op i stamp title \<equiv>
     \<lparr>q_id = i, q_user_id = ''u1'', q_type = upsert_task, q_task_id = ''t1'',
      q_payload = TaskPayload (demo_task ''t1'' title stamp), q_created_at = stamp, q_retries = 0\<rparr>"

abbreviation demo_fresh :: "nat \<Rightarrow> Fresh" where
  "demo_fresh \<equiv> (\<lambda>i. \<lparr>randomUUID = ''f0'', now_created = ''2026-01-03T00:00:00.000Z'',
     now_updated = ''2026-01-03T00:00:00.000Z''\<rparr>)"


abbreviation demo_row :: "string \<Rightarrow> string \<Rightarrow> string \<Rightarrow> RawTask" where
  "demo_row i title stamp \<equiv>
     \<lparr>r_id = Some i, r_user_id = Some ''u1'', r_title = Some title, r_status = Some ''todo'',
      r_priority = Some ''normal'', r_tags = Some [], r_scheduled_date = None, r_due_time = None,
      r_estimate_minutes = None, r_energy = None, r_created_at = Some ''2026-01-01T00:00:00+00:00'',
      r_updated_at = Some stamp, r_completed_at = None, r_original_scheduled_date = None,
      r_timezone = Some ''UTC'', r_top3_slot = None, r_last_notified_at = None\<rparr>"

abbreviation no_patch :: TaskPatch where
  "no_patch \<equiv>
     \<lparr>p_id = None, p_user_id = None, p_title = None, p_status = None, p_priority = None,
      p_tags = None, p_scheduled_date = None, p_due_time = None, p_estimate_minutes = None,
      p_energy = None, p_created_at = None, p_updated_at = None, p_completed_at = None,
      p_original_scheduled_date = None, p_timezone = None, p_top3_slot = None,
      p_last_notified_at = None\<rparr>"


text \<open>
  \<^verbatim>\<open>make_timestamptz\<close> on 5 January 2026 in UTC, and rows, subscriptions and a world for
  the dispatcher.
\<close>

abbreviation demo_mk :: make_timestamptz where
  "demo_mk \<equiv> (\<lambda>y m d h mi s tz.
     if tz = ''UTC'' \<and> y = 2026 \<and> m = 1 \<and> d = 5
     then Inr (1767571200000000 + (h * 3600 + mi * 60) * 1000000 + s)
     else Inl ''time zone not recognized'')"

abbreviation demo_task_row :: "string \<Rightarrow> string \<Rightarrow> pg_time option \<Rightarrow> int option \<Rightarrow> TaskRow" where
  "demo_task_row i status tm notified \<equiv>
     \<lparr>s_id = i, s_user_id = ''u1'', s_title = ''write'', s_status = status, s_priority = ''normal'',
      s_tags = [], s_scheduled_date = Some \<lparr>d_year = 2026, d_month = 1, d_day = 5\<rparr>,
      s_due_time = tm, s_estimate_minutes = None, s_energy = None,
      s_created_at = 1767225600000000, s_updated_at = 1767225600000000, s_completed_at = None,
      s_original_scheduled_date = None, s_timezone = ''UTC'', s_top3_slot = None,
      s_last_notified_at = notified\<rparr>"

abbreviation demo_due :: "string \<Rightarrow> string \<Rightarrow> DueTaskRow" where
  "demo_due i u \<equiv>
     \<lparr>due_id = i, due_user_id = u, due_title = ''write'', due_scheduled_date = ''2026-01-05'',
      due_due_time = ''10:00:00'', due_timezone = ''UTC'', due_due_at = ''2026-01-05T10:00:00+00:00''\<rparr>"

abbreviation demo_sub :: "string \<Rightarrow> string \<Rightarrow> string \<Rightarrow> SubscriptionRow" where
  "demo_sub i u e \<equiv> \<lparr>sub_id = i, sub_user_id = u, sub_endpoint = e, sub_p256dh = ''k'', sub_auth = ''a''\<rparr>"

abbreviation demo_world :: World where
  "demo_world \<equiv>
     \<lparr>CRON_SECRET = Some ''s3cret'',
      StringToNumber = (\<lambda>s. if s = ''10'' then Finite 10 else if s = [] then Finite 0 else NotANumber),
      get_due_tasks_reply = (\<lambda>n. Inr [demo_due ''A'' ''u1'', demo_due ''B'' ''u2'']),
      push_subscriptions = [demo_sub ''s1'' ''u1'' ''e1'', demo_sub ''s2'' ''u1'' ''e2'', demo_sub ''s3'' ''u2'' ''e3''],
      select_subscriptions_error = None,
      sendWebPush = (\<lambda>evs target payload.
         if sp_endpoint target = ''e1'' then Threw (Some 410)
         else if sp_endpoint target = ''e2'' then Sent else Threw None),
      mark_tasks_notified_error = None\<rparr>"

abbreviation demo_request :: "(string \<rightharpoonup> string) \<Rightarrow> query_value option \<Rightarrow> Request" where
  "demo_request h q \<equiv> \<lparr>headers = h, query_window = q\<rparr>"



section \<open>Facts about tables\<close>

lemma table_get_delete:
  "table_get key k (table_delete key k' t) = (if k = k' then None else table_get key k t)"
  by (induction t) (auto simp: table_get_def table_delete_def)

lemma find_insort_key_same:
  "\<forall>r \<in> set t. key r \<noteq> key v \<Longrightarrow> find (\<lambda>r. key r = key v) (insort_key key v t) = Some v"
  by (induction t) auto

lemma find_insort_key_other:
  "k \<noteq> key v \<Longrightarrow> find (\<lambda>r. key r = k) (insort_key key v t) = find (\<lambda>r. key r = k) t"
  by (induction t) auto

lemma table_get_put:
  "table_get key k (table_put key v t) = (if k = key v then Some v else table_get key k t)"
proof (cases "k = key v")
  case True
  have "\<forall>r \<in> set (table_delete key (key v) t). key r \<noteq> key v"
    by (simp add: table_delete_def)
  then show ?thesis
    using True by (simp add: table_get_def table_put_def find_insort_key_same)
next
  case False
  then show ?thesis
    using table_get_delete [of key k "key v" t]
    by (simp add: table_get_def table_put_def find_insort_key_other)
qed


section \<open>Last write wins\<close>













section \<open>Flushing the outbox\<close>











section \<open>Pulling remote changes\<close>












section \<open>Queue payloads\<close>

lemma queue_putTaskLocal_other:
  "u \<noteq> k \<Longrightarrow> table_get q_id k (queue (putTaskLocal u n t sq db)) = table_get q_id k (queue db)"
  by (simp add: putTaskLocal_def enqueueTaskUpsert_def Let_def table_get_put)

lemma queue_later_puts:
  "\<forall>(u, n, t, sq) \<in> set edits. u \<noteq> k \<Longrightarrow>
   table_get q_id k (queue (fold (\<lambda>(u, n, t, sq). putTaskLocal u n t sq) edits db)) =
   table_get q_id k (queue db)"
proof (induction edits arbitrary: db)
  case Nil
  then show ?case by simp
next
  case (Cons e edits)
  obtain u n t sq where e: "e = (u, n, t, sq)"
    by (cases e) auto
  have uk: "u \<noteq> k" using Cons.prems e by simp
  have rest: "\<forall>(u, n, t, sq) \<in> set edits. u \<noteq> k"
    using Cons.prems by (simp add: case_prod_beta)
  have "table_get q_id k (queue (fold (\<lambda>(u, n, t, sq). putTaskLocal u n t sq) edits (putTaskLocal u n t sq db))) =
      table_get q_id k (queue (putTaskLocal u n t sq db))"
    by (rule Cons.IH [OF rest])
  then show ?case
    using e uk by (simp add: queue_putTaskLocal_other)
qed

text \<open>
  Claim C8. After \<^verbatim>\<open>putTaskLocal\<close> has enqueued an upsert for a task under the queue id
  \<open>uuid\<close>, any number of later puts (of a record of the same id or of any other), each
  under a queue id other than \<open>uuid\<close>, leave that queue row as it was written: its
  payload is the task as it was at enqueue time.
\<close>

theorem enqueued_payload_is_snapshot:
  assumes "\<forall>(u, n, t, sq) \<in> set edits. u \<noteq> uuid"
  shows "table_get q_id uuid
           (queue (fold (\<lambda>(u, n, t, sq). putTaskLocal u n t sq) edits (putTaskLocal uuid now task True db))) =
         Some \<lparr>q_id = uuid, q_user_id = t_user_id task, q_type = upsert_task, q_task_id = t_id task,
               q_payload = TaskPayload task, q_created_at = now, q_retries = 0\<rparr>"
  using queue_later_puts [OF assms, of "putTaskLocal uuid now task True db"]
  by (simp add: putTaskLocal_def enqueueTaskUpsert_def Let_def table_get_put)

theorem enqueued_payload_is_snapshot_witness:
  "map q_payload (queue (putTaskLocal ''q2'' ''2026-01-01T00:00:02.000Z'' (demo_task ''t1'' ''b'' ''2026-01-01T00:00:02.000Z'') True
        (putTaskLocal ''q1'' ''2026-01-01T00:00:01.000Z'' (demo_task ''t1'' ''a'' ''2026-01-01T00:00:01.000Z'') True
           \<lparr>tasks = [], queue = [], meta = []\<rparr>)))
      = [TaskPayload (demo_task ''t1'' ''a'' ''2026-01-01T00:00:01.000Z''), TaskPayload (demo_task ''t1'' ''b'' ''2026-01-01T00:00:02.000Z'')]
   \<and> table_get q_id ''q1'' (queue (putTaskLocal ''q2'' ''2026-01-01T00:00:02.000Z'' (demo_task ''t1'' ''b'' ''2026-01-01T00:00:02.000Z'') True
        (putTaskLocal ''q1'' ''2026-01-01T00:00:01.000Z'' (demo_task ''t1'' ''a'' ''2026-01-01T00:00:01.000Z'') True
           \<lparr>tasks = [], queue = [], meta = []\<rparr>)))
      = Some (demo_op ''q1'' ''2026-01-01T00:00:01.000Z'' ''a'')"
  using enqueued_payload_is_snapshot [of "[(''q2'', ''2026-01-01T00:00:02.000Z'', demo_task ''t1'' ''b'' ''2026-01-01T00:00:02.000Z'', True)]"
      "''q1''" "''2026-01-01T00:00:01.000Z''" "demo_task ''t1'' ''a'' ''2026-01-01T00:00:01.000Z''"
      "\<lparr>tasks = [], queue = [], meta = []\<rparr>"]
  by (simp add: putTaskLocal_def enqueueTaskUpsert_def table_put_def table_delete_def)


section \<open>Status and completion time\<close>

lemma set_table_put: "set (table_put key v t) \<subseteq> insert v (set t)"
  by (auto simp: table_put_def table_delete_def set_insort_key)

lemma upsert_step_subset: "set (upsert_step g s x) \<subseteq> insert x (set s)"
  using set_table_put [of t_id x s] by (auto simp: upsert_step_def Let_def)

lemma upsert_subset: "set (upsertTasksFromRemote g xs s) \<subseteq> set xs \<union> set s"
proof (induction xs arbitrary: s)
  case Nil
  then show ?case by simp
next
  case (Cons x xs)
  show ?case
    using Cons.IH [of "upsert_step g s x"] upsert_step_subset [of g s x] by auto
qed

text \<open>
  Claim C9, as the code has it. A local edit whose patch sets \<^verbatim>\<open>status\<close> writes a record in
  which \<^verbatim>\<open>completed_at\<close> is non-null exactly when the status is done; an edit whose patch
  touches neither \<^verbatim>\<open>status\<close> nor \<^verbatim>\<open>completed_at\<close> keeps the coupling of its source;
  \<^verbatim>\<open>normalizeTaskRecord\<close> keeps the coupling of the raw row it is given; a merge and a
  local put store only records they are given, so a table of coupled records stays one
  when the incoming records are coupled.
\<close>

theorem completed_at_coupling_preserved:
  "(p_status patch \<noteq> None \<longrightarrow> completed_iff_done (updateTask_next a b source patch))
   \<and> (p_status patch = None \<and> p_completed_at patch = None \<and> completed_iff_done source \<longrightarrow>
        completed_iff_done (updateTask_next a b source patch))
   \<and> (raw_completed_iff_done raw \<longrightarrow> completed_iff_done (normalizeTaskRecord f raw))
   \<and> ((\<forall>t \<in> set store. completed_iff_done t) \<and> (\<forall>t \<in> set incoming. completed_iff_done t) \<longrightarrow>
        (\<forall>t \<in> set (upsertTasksFromRemote g incoming store). completed_iff_done t))
   \<and> (completed_iff_done task \<and> (\<forall>t \<in> set (tasks db). completed_iff_done t) \<longrightarrow>
        (\<forall>t \<in> set (tasks (putTaskLocal u n task sq db)). completed_iff_done t))"
proof -
  have c1: "p_status patch \<noteq> None \<longrightarrow> completed_iff_done (updateTask_next a b source patch)"
  proof
    assume "p_status patch \<noteq> None"
    then obtain st where st: "p_status patch = Some st" by auto
    show "completed_iff_done (updateTask_next a b source patch)"
      using st by (cases st) (simp_all add: completed_iff_done_def updateTask_next_def spread_def nullish_def)
  qed
  have c2: "p_status patch = None \<and> p_completed_at patch = None \<and> completed_iff_done source \<longrightarrow>
        completed_iff_done (updateTask_next a b source patch)"
    by (simp add: completed_iff_done_def updateTask_next_def spread_def nullish_def)
  have c3: "raw_completed_iff_done raw \<longrightarrow> completed_iff_done (normalizeTaskRecord f raw)"
    by (simp add: completed_iff_done_def raw_completed_iff_done_def normalizeTaskRecord_def)
  have c4: "(\<forall>t \<in> set store. completed_iff_done t) \<and> (\<forall>t \<in> set incoming. completed_iff_done t) \<longrightarrow>
        (\<forall>t \<in> set (upsertTasksFromRemote g incoming store). completed_iff_done t)"
    using upsert_subset [of g incoming store] by blast
  have c5: "completed_iff_done task \<and> (\<forall>t \<in> set (tasks db). completed_iff_done t) \<longrightarrow>
        (\<forall>t \<in> set (tasks (putTaskLocal u n task sq db)). completed_iff_done t)"
    using set_table_put [of t_id task "tasks db"]
    by (auto simp: putTaskLocal_def enqueueTaskUpsert_def Let_def)
  show ?thesis using c1 c2 c3 c4 c5 by blast
qed


theorem completed_at_coupling_preserved_witness:
  "completed_iff_done (updateTask_next ''2026-01-02T00:00:00.000Z'' ''2026-01-02T00:00:00.001Z''
        (demo_task ''t1'' ''a'' ''2026-01-01T00:00:00.000Z'') (no_patch\<lparr>p_status := Some Done\<rparr>))
   \<and> completed_iff_done (updateTask_next ''2026-01-02T00:00:00.000Z'' ''2026-01-02T00:00:00.001Z''
        (demo_task ''t1'' ''a'' ''2026-01-01T00:00:00.000Z'')
        (no_patch\<lparr>p_scheduled_date := Some (Some ''2026-01-06'')\<rparr>))
   \<and> completed_iff_done (normalizeTaskRecord (demo_fresh 0) (demo_row ''t3'' ''c'' ''2026-01-02T00:00:00+00:00''))
   \<and> list_all completed_iff_done
        (upsertTasksFromRemote demo_getTime [demo_task ''t1'' ''b'' ''2026-01-02T00:00:00.000Z'']
          [demo_task ''t1'' ''a'' ''2026-01-01T00:00:00.000Z''])
   \<and> list_all completed_iff_done
        (tasks (putTaskLocal ''q1'' ''2026-01-02T00:00:00.000Z''
          (demo_task ''t1'' ''b'' ''2026-01-02T00:00:00.000Z'') True
          \<lparr>tasks = [demo_task ''t1'' ''a'' ''2026-01-01T00:00:00.000Z''], queue = [], meta = []\<rparr>))"
proof -
  let ?old = "demo_task ''t1'' ''a'' ''2026-01-01T00:00:00.000Z''"
  let ?new = "demo_task ''t1'' ''b'' ''2026-01-02T00:00:00.000Z''"
  let ?row = "demo_row ''t3'' ''c'' ''2026-01-02T00:00:00+00:00''"
  let ?db = "\<lparr>tasks = [?old], queue = [], meta = []\<rparr>"
  let ?done = "no_patch\<lparr>p_status := Some Done\<rparr>"
  let ?move = "no_patch\<lparr>p_scheduled_date := Some (Some ''2026-01-06'')\<rparr>"
  note T1 = completed_at_coupling_preserved [of ?done "''2026-01-02T00:00:00.000Z''" "''2026-01-02T00:00:00.001Z''" ?old
        ?row "demo_fresh 0" "[?old]" "[?new]" demo_getTime ?new ?db "''q1''"
        "''2026-01-02T00:00:00.000Z''" True]
  note T2 = completed_at_coupling_preserved [of ?move "''2026-01-02T00:00:00.000Z''" "''2026-01-02T00:00:00.001Z''" ?old]
  have d: "completed_iff_done (demo_task i title stamp)" for i title stamp
    by (simp add: completed_iff_done_def)
  have h1: "p_status ?done \<noteq> None" by simp
  have h2: "p_status ?move = None \<and> p_completed_at ?move = None \<and> completed_iff_done ?old"
    using d by simp
  have h3: "raw_completed_iff_done ?row"
    by (simp add: raw_completed_iff_done_def)
  have h4: "(\<forall>t \<in> set [?old]. completed_iff_done t) \<and> (\<forall>t \<in> set [?new]. completed_iff_done t)"
    using d by simp
  have h5: "completed_iff_done ?new \<and> (\<forall>t \<in> set (tasks ?db). completed_iff_done t)"
    using d by simp
  have g1: "completed_iff_done (updateTask_next ''2026-01-02T00:00:00.000Z'' ''2026-01-02T00:00:00.001Z'' ?old ?done)"
    using T1 [THEN conjunct1] h1 by (rule mp)
  have g2: "completed_iff_done (updateTask_next ''2026-01-02T00:00:00.000Z'' ''2026-01-02T00:00:00.001Z'' ?old ?move)"
    using T2 [THEN conjunct2, THEN conjunct1] h2 by (rule mp)
  have g3: "completed_iff_done (normalizeTaskRecord (demo_fresh 0) ?row)"
    using T1 [THEN conjunct2, THEN conjunct2, THEN conjunct1] h3 by (rule mp)
  have g4: "\<forall>t \<in> set (upsertTasksFromRemote demo_getTime [?new] [?old]). completed_iff_done t"
    using T1 [THEN conjunct2, THEN conjunct2, THEN conjunct2, THEN conjunct1] h4 by (rule mp)
  have g5: "\<forall>t \<in> set (tasks (putTaskLocal ''q1'' ''2026-01-02T00:00:00.000Z'' ?new True ?db)). completed_iff_done t"
    using T1 [THEN conjunct2, THEN conjunct2, THEN conjunct2, THEN conjunct2] h5 by (rule mp)
  show ?thesis
    using g1 g2 g3 g4 g5 by (simp only: list_all_iff simp_thms)
qed

text \<open>
  Claim C9 as it is written fails on a partial row: a remote row that says \<^verbatim>\<open>done\<close> and
  carries no \<^verbatim>\<open>completed_at\<close> is normalised to a record that is done and has no
  completion time.
\<close>

theorem normalizeTaskRecord_done_without_completed_at:
  "\<not> completed_iff_done (normalizeTaskRecord (demo_fresh 0) ((raw_of_id ''t1'')\<lparr>r_status := Some ''done''\<rparr>))"
  by (simp add: completed_iff_done_def normalizeTaskRecord_def raw_of_id_def)


section \<open>Overlapping syncs\<close>

text \<open>
  Claim C6 at two triggers. From the idle state, online and configured, two triggers in a
  row leave two calls of \<^verbatim>\<open>syncNow\<close> in flight; a trigger that arrives when the first call
  has reached its pull starts a flush beside it; only the sync button is held back while
  a sync is in progress.
\<close>

theorem fireSync_overlapping_syncs:
  "inFlight (app_run [Trigger, Trigger]
      \<lparr>hasSupabaseClientConfig = True, isOnline = True, syncInProgress = False, inFlight = []\<rparr>)
     = [Flushing, Flushing]
   \<and> inFlight (app_run [Trigger, Resume 0, Trigger]
      \<lparr>hasSupabaseClientConfig = True, isOnline = True, syncInProgress = False, inFlight = []\<rparr>)
     = [Pulling, Flushing]
   \<and> inFlight (app_run [Trigger, Button]
      \<lparr>hasSupabaseClientConfig = True, isOnline = True, syncInProgress = False, inFlight = []\<rparr>)
     = [Flushing]"
  by (simp add: app_run_def fireSync_def resume_def)


section \<open>The due-task query\<close>









section \<open>The dispatcher\<close>

lemma push_calls_append: "push_calls (a @ b) = push_calls a @ push_calls b"
  by (induction a rule: push_calls.induct) auto

lemma mark_calls_append: "mark_calls (a @ b) = mark_calls a @ mark_calls b"
  by (induction a rule: mark_calls.induct) auto

lemma delivered_in_append: "delivered_in (a @ b) t = (delivered_in a t \<or> delivered_in b t)"
  by (induction a t rule: delivered_in.induct) auto

lemma delivered_in_cong: "push_payload a = push_payload b \<Longrightarrow> delivered_in evs a = delivered_in evs b"
  by (induction evs a rule: delivered_in.induct) auto

lemma push_payload_id: "push_payload a = push_payload b \<Longrightarrow> due_id a = due_id b"
  by (simp add: push_payload_def)

lemma send_to_devices_trace:
  "send_to_devices w task subs (d, c, evs) = (d', c', evs') \<Longrightarrow>
   \<exists>new. evs' = evs @ new
     \<and> push_calls new = map (\<lambda>sub. (push_target sub, push_payload task)) subs
     \<and> mark_calls new = []
     \<and> d' = (d \<or> delivered_in new task)
     \<and> (\<forall>t. delivered_in new t \<longrightarrow> push_payload t = push_payload task)"
proof (induction subs arbitrary: d c evs)
  case Nil
  then show ?case by simp
next
  case (Cons sub subs)
  show ?case
  proof (cases "sendWebPush w evs (push_target sub) (push_payload task)")
    case Sent
    let ?e = "[SendWebPush (push_target sub) (push_payload task) Sent]"
    have "send_to_devices w task subs (True, c + 1, evs @ ?e) = (d', c', evs')"
      using Cons.prems Sent by simp
    from Cons.IH [OF this] obtain new where n: "evs' = (evs @ ?e) @ new"
      "push_calls new = map (\<lambda>sub. (push_target sub, push_payload task)) subs"
      "mark_calls new = []" "d' = (True \<or> delivered_in new task)"
      "\<forall>t. delivered_in new t \<longrightarrow> push_payload t = push_payload task"
      by blast
    show ?thesis
      using n by (intro exI [of _ "?e @ new"]) (auto simp: push_calls_append mark_calls_append delivered_in_append)
  next
    case (Threw code)
    let ?e = "[SendWebPush (push_target sub) (push_payload task) (Threw code)] @
               (if isUnsubscribedError code then [DeleteSubscription (sub_id sub)] else [])"
    have "send_to_devices w task subs (d, c, evs @ ?e) = (d', c', evs')"
      using Cons.prems Threw by simp
    from Cons.IH [OF this] obtain new where n: "evs' = (evs @ ?e) @ new"
      "push_calls new = map (\<lambda>sub. (push_target sub, push_payload task)) subs"
      "mark_calls new = []" "d' = (d \<or> delivered_in new task)"
      "\<forall>t. delivered_in new t \<longrightarrow> push_payload t = push_payload task"
      by blast
    show ?thesis
      using n by (intro exI [of _ "?e @ new"]) (auto simp: push_calls_append mark_calls_append delivered_in_append)
  qed
qed

lemma set_set_add: "set (set_add x xs) = insert x (set xs)"
  by (auto simp: set_add_def)

lemma distinct_set_add: "distinct xs \<Longrightarrow> distinct (set_add x xs)"
  by (simp add: set_add_def)

lemma dispatch_trace:
  "dispatch w bu due (ids, c, evs) = (ids', c', evs') \<Longrightarrow> distinct ids \<Longrightarrow>
   \<exists>new. evs' = evs @ new
     \<and> push_calls new = concat (map (\<lambda>task. map (\<lambda>sub. (push_target sub, push_payload task)) (bu (due_user_id task))) due)
     \<and> mark_calls new = []
     \<and> distinct ids'
     \<and> set ids' = set ids \<union> due_id ` {task \<in> set due. delivered_in new task}
     \<and> (\<forall>t. delivered_in new t \<longrightarrow> (\<exists>t' \<in> set due. push_payload t' = push_payload t))"
proof (induction due arbitrary: ids c evs)
  case Nil
  then show ?case by simp
next
  case (Cons task due)
  let ?subs = "bu (due_user_id task)"
  obtain d c1 evs1 where s: "send_to_devices w task ?subs (False, c, evs) = (d, c1, evs1)"
    by (cases "send_to_devices w task ?subs (False, c, evs)") auto
  from send_to_devices_trace [OF s] obtain seg where seg: "evs1 = evs @ seg"
    "push_calls seg = map (\<lambda>sub. (push_target sub, push_payload task)) ?subs"
    "mark_calls seg = []" "d = delivered_in seg task"
    "\<forall>t. delivered_in seg t \<longrightarrow> push_payload t = push_payload task"
    by auto
  let ?ids1 = "if d then set_add (due_id task) ids else ids"
  have empty_seg: "?subs = [] \<Longrightarrow> seg = [] \<and> \<not> d \<and> evs1 = evs \<and> c1 = c"
    using s seg(1) by simp
  have step: "dispatch w bu due (?ids1, c1, evs1) = (ids', c', evs')"
  proof (cases "?subs = []")
    case True
    then show ?thesis using Cons.prems(1) empty_seg by simp
  next
    case False
    then show ?thesis using Cons.prems(1) s by simp
  qed
  have d1: "distinct ?ids1"
    using Cons.prems(2) by (simp add: distinct_set_add)
  from Cons.IH [OF step d1] obtain new where n: "evs' = evs1 @ new"
    "push_calls new = concat (map (\<lambda>task. map (\<lambda>sub. (push_target sub, push_payload task)) (bu (due_user_id task))) due)"
    "mark_calls new = []" "distinct ids'"
    "set ids' = set ?ids1 \<union> due_id ` {task \<in> set due. delivered_in new task}"
    "\<forall>t. delivered_in new t \<longrightarrow> (\<exists>t' \<in> set due. push_payload t' = push_payload t)"
    by blast
  have ids1: "set ?ids1 = set ids \<union> (if delivered_in seg task then {due_id task} else {})"
    using seg(4) by (simp add: set_set_add)
  have sets: "set ids' = set ids \<union> due_id ` {t \<in> set (task # due). delivered_in (seg @ new) t}"
  proof (intro equalityI subsetI)
    fix x assume "x \<in> set ids'"
    then consider "x \<in> set ids" | "x = due_id task" "delivered_in seg task"
      | t where "t \<in> set due" "delivered_in new t" "x = due_id t"
      using n(5) ids1 by (auto split: if_splits)
    then show "x \<in> set ids \<union> due_id ` {t \<in> set (task # due). delivered_in (seg @ new) t}"
      by cases (auto simp: delivered_in_append)
  next
    fix x assume "x \<in> set ids \<union> due_id ` {t \<in> set (task # due). delivered_in (seg @ new) t}"
    then consider "x \<in> set ids"
      | t where "t \<in> set (task # due)" "delivered_in seg t" "x = due_id t"
      | t where "t \<in> set (task # due)" "delivered_in new t" "x = due_id t"
      by (auto simp: delivered_in_append)
    then show "x \<in> set ids'"
    proof cases
      case 1
      then show ?thesis using n(5) ids1 by auto
    next
      case 2
      then have p: "push_payload t = push_payload task" using seg(5) by blast
      then have "delivered_in seg task" using 2(2) delivered_in_cong [OF p] by simp
      moreover have "x = due_id task" using 2(3) push_payload_id [OF p] by simp
      ultimately show ?thesis using n(5) ids1 by auto
    next
      case 3
      then obtain t' where t': "t' \<in> set due" "push_payload t' = push_payload t"
        using n(6) by blast
      then have "delivered_in new t'" using 3(2) delivered_in_cong [OF t'(2)] by simp
      moreover have "x = due_id t'" using 3(3) push_payload_id [OF t'(2)] by simp
      ultimately show ?thesis using n(5) t'(1) by auto
    qed
  qed
  have cover: "\<forall>t. delivered_in (seg @ new) t \<longrightarrow> (\<exists>t' \<in> set (task # due). push_payload t' = push_payload t)"
    using seg(5) n(6) by (auto simp: delivered_in_append)
  have calls: "push_calls (seg @ new) =
      concat (map (\<lambda>task. map (\<lambda>sub. (push_target sub, push_payload task)) (bu (due_user_id task))) (task # due))"
    using seg(2) n(2) by (simp add: push_calls_append)
  show ?case
    using seg(1,3) n(1,3,4) sets cover calls
    by (intro exI [of _ "seg @ new"]) (simp add: mark_calls_append)
qed

lemma fold_group: "fold (\<lambda>sub m. m(sub_user_id sub := m (sub_user_id sub) @ [sub])) subs m u =
    m u @ filter (\<lambda>s. sub_user_id s = u) subs"
  by (induction subs arbitrary: m) auto

lemma group_by_user_filter: "group_by_user subs u = filter (\<lambda>s. sub_user_id s = u) subs"
  by (simp add: group_by_user_def fold_group)

lemma set_fold_set_add: "set (fold set_add xs acc) = set xs \<union> set acc"
  by (induction xs arbitrary: acc) (auto simp: set_set_add)

lemma handler_trace:
  assumes auth: "canRun (CRON_SECRET w) request"
    and due: "get_due_tasks_reply w (window_minutes_arg (windowMinutes (StringToNumber w) (query_window request))) = Inr due"
    and subs: "select_subscriptions_error w = None"
  shows "\<exists>ids new. distinct ids
    \<and> set ids = due_id ` {task \<in> set due. delivered_in new task}
    \<and> push_calls new = concat (map (\<lambda>task. map (\<lambda>sub. (push_target sub, push_payload task))
          (filter (\<lambda>s. sub_user_id s = due_user_id task) (push_subscriptions w))) due)
    \<and> mark_calls new = []
    \<and> snd (handler w request) =
        [GetDueTasks (window_minutes_arg (windowMinutes (StringToNumber w) (query_window request)))] @
        (if due = [] then [] else [SelectSubscriptions (fold set_add (map due_user_id due) [])]) @
        new @ (if ids = [] then [] else [MarkTasksNotified ids])"
proof (cases "due = []")
  case True
  then show ?thesis
    using auth due by (intro exI [of _ "[]"]) (simp add: handler_def)
next
  case False
  let ?arg = "window_minutes_arg (windowMinutes (StringToNumber w) (query_window request))"
  let ?userIds = "fold set_add (map due_user_id due) []"
  let ?bu = "group_by_user (filter (\<lambda>s. sub_user_id s \<in> set ?userIds) (push_subscriptions w))"
  let ?evs0 = "[GetDueTasks ?arg, SelectSubscriptions ?userIds]"
  obtain ids n evs where run: "dispatch w ?bu due ([], 0, ?evs0) = (ids, n, evs)"
    by (cases "dispatch w ?bu due ([], 0, ?evs0)") auto
  from dispatch_trace [OF run] obtain new where n: "evs = ?evs0 @ new"
    "push_calls new = concat (map (\<lambda>task. map (\<lambda>sub. (push_target sub, push_payload task)) (?bu (due_user_id task))) due)"
    "mark_calls new = []" "distinct ids"
    "set ids = set [] \<union> due_id ` {task \<in> set due. delivered_in new task}"
    by auto
  have bu: "?bu (due_user_id task) = filter (\<lambda>s. sub_user_id s = due_user_id task) (push_subscriptions w)"
    if "task \<in> set due" for task
  proof -
    have "due_user_id task \<in> set ?userIds"
      using that by (simp add: set_fold_set_add)
    then show ?thesis
      by (auto simp: group_by_user_filter intro: filter_cong)
  qed
  have calls: "push_calls new = concat (map (\<lambda>task. map (\<lambda>sub. (push_target sub, push_payload task))
          (filter (\<lambda>s. sub_user_id s = due_user_id task) (push_subscriptions w))) due)"
    unfolding n(2) using bu by (auto intro!: arg_cong [of _ _ concat] map_cong)
  have trace: "snd (handler w request) = ?evs0 @ new @ (if ids = [] then [] else [MarkTasksNotified ids])"
    using auth due subs False run n(1)
    by (simp add: handler_def Let_def split: option.splits)
  show ?thesis
    using n(3,4,5) calls trace False
    by (intro exI [of _ ids] exI [of _ new]) simp
qed

lemma mark_tasks_notified_nth:
  "i < length rows \<Longrightarrow>
   mark_tasks_notified now ids rows ! i =
     (if s_id (rows ! i) \<in> set ids
      then (rows ! i)\<lparr>s_last_notified_at := Some now, s_updated_at := now\<rparr> else rows ! i)"
  by (simp add: mark_tasks_notified_def)

text \<open>
  Claim C5, as the code has it. In a run that is authorised and gets its due tasks and its
  subscriptions, the pushes are, task by task in scan order, one to every subscription of
  the task's owner; the ids marked are, without repetition, those of the due tasks for
  which a push returned; the mark command is issued once, as the last request, with
  exactly these ids when there is one, and not at all when there is none; and the mark
  writes the time of the command into \<^verbatim>\<open>last_notified_at\<close> and \<^verbatim>\<open>updated_at\<close> of the rows
  with these ids and leaves every other row as it is.
\<close>

theorem handler_marks_delivered_tasks:
  assumes auth: "canRun (CRON_SECRET w) request"
    and due: "get_due_tasks_reply w (window_minutes_arg (windowMinutes (StringToNumber w) (query_window request))) = Inr due"
    and subs: "select_subscriptions_error w = None"
  shows "push_calls (snd (handler w request)) =
          concat (map (\<lambda>task. map (\<lambda>sub. (push_target sub, push_payload task))
            (filter (\<lambda>s. sub_user_id s = due_user_id task) (push_subscriptions w))) due)
    \<and> (\<exists>ids. distinct ids
          \<and> set ids = due_id ` {task \<in> set due. delivered_in (snd (handler w request)) task}
          \<and> mark_calls (snd (handler w request)) = (if ids = [] then [] else [ids])
          \<and> (ids \<noteq> [] \<longrightarrow> last (snd (handler w request)) = MarkTasksNotified ids))
    \<and> length (mark_tasks_notified now marked rows) = length rows
    \<and> (\<forall>i < length rows.
          mark_tasks_notified now marked rows ! i =
            (if s_id (rows ! i) \<in> set marked
             then (rows ! i)\<lparr>s_last_notified_at := Some now, s_updated_at := now\<rparr> else rows ! i))"
proof -
  let ?arg = "window_minutes_arg (windowMinutes (StringToNumber w) (query_window request))"
  from handler_trace [OF auth due subs] obtain ids new where h: "distinct ids"
    "set ids = due_id ` {task \<in> set due. delivered_in new task}"
    "push_calls new = concat (map (\<lambda>task. map (\<lambda>sub. (push_target sub, push_payload task))
          (filter (\<lambda>s. sub_user_id s = due_user_id task) (push_subscriptions w))) due)"
    "mark_calls new = []"
    "snd (handler w request) = [GetDueTasks ?arg] @
        (if due = [] then [] else [SelectSubscriptions (fold set_add (map due_user_id due) [])]) @
        new @ (if ids = [] then [] else [MarkTasksNotified ids])"
    by blast
  have del: "delivered_in (snd (handler w request)) task = delivered_in new task" for task
    unfolding h(5) by (simp add: delivered_in_append)
  have c1: "push_calls (snd (handler w request)) =
          concat (map (\<lambda>task. map (\<lambda>sub. (push_target sub, push_payload task))
            (filter (\<lambda>s. sub_user_id s = due_user_id task) (push_subscriptions w))) due)"
    unfolding h(5) using h(3) by (simp add: push_calls_append)
  have m: "mark_calls (snd (handler w request)) = (if ids = [] then [] else [ids])"
    unfolding h(5) using h(4) by (simp add: mark_calls_append)
  have l: "ids \<noteq> [] \<longrightarrow> last (snd (handler w request)) = MarkTasksNotified ids"
    unfolding h(5) by simp
  have c2: "\<exists>ids. distinct ids
          \<and> set ids = due_id ` {task \<in> set due. delivered_in (snd (handler w request)) task}
          \<and> mark_calls (snd (handler w request)) = (if ids = [] then [] else [ids])
          \<and> (ids \<noteq> [] \<longrightarrow> last (snd (handler w request)) = MarkTasksNotified ids)"
    using h(1,2) m l by (intro exI [of _ ids]) (simp only: del simp_thms)
  have c3: "length (mark_tasks_notified now marked rows) = length rows"
    by (simp add: mark_tasks_notified_def)
  have c4: "\<forall>i < length rows.
          mark_tasks_notified now marked rows ! i =
            (if s_id (rows ! i) \<in> set marked
             then (rows ! i)\<lparr>s_last_notified_at := Some now, s_updated_at := now\<rparr> else rows ! i)"
    using mark_tasks_notified_nth by blast
  show ?thesis using c1 c2 c3 c4 by blast
qed

lemma demo_run:
  "handler demo_world (demo_request [''authorization'' \<mapsto> ''Bearer s3cret''] None) =
    ((200, Summary 2 1 1),
     [GetDueTasks (Finite 5), SelectSubscriptions [''u1'', ''u2''],
      SendWebPush (push_target (demo_sub ''s1'' ''u1'' ''e1'')) (push_payload (demo_due ''A'' ''u1'')) (Threw (Some 410)),
      DeleteSubscription ''s1'',
      SendWebPush (push_target (demo_sub ''s2'' ''u1'' ''e2'')) (push_payload (demo_due ''A'' ''u1'')) Sent,
      SendWebPush (push_target (demo_sub ''s3'' ''u2'' ''e3'')) (push_payload (demo_due ''B'' ''u2'')) (Threw None),
      MarkTasksNotified [''A'']])"
  by (simp add: handler_def canRun_def truthy_def windowMinutes_def window_minutes_arg_def
      set_add_def group_by_user_filter push_target_def isUnsubscribedError_def)

theorem handler_marks_delivered_tasks_witness:
  "push_calls (snd (handler demo_world (demo_request [''authorization'' \<mapsto> ''Bearer s3cret''] None))) =
     [(push_target (demo_sub ''s1'' ''u1'' ''e1''), push_payload (demo_due ''A'' ''u1'')),
      (push_target (demo_sub ''s2'' ''u1'' ''e2''), push_payload (demo_due ''A'' ''u1'')),
      (push_target (demo_sub ''s3'' ''u2'' ''e3''), push_payload (demo_due ''B'' ''u2''))]
   \<and> mark_calls (snd (handler demo_world (demo_request [''authorization'' \<mapsto> ''Bearer s3cret''] None))) = [[''A'']]
   \<and> last (snd (handler demo_world (demo_request [''authorization'' \<mapsto> ''Bearer s3cret''] None))) = MarkTasksNotified [''A'']
   \<and> mark_tasks_notified 1767607200000000 [''A'']
        [demo_task_row ''A'' ''todo'' (Some \<lparr>tm_hour = 10, tm_minute = 0, tm_second = 0\<rparr>) None,
         demo_task_row ''B'' ''todo'' (Some \<lparr>tm_hour = 10, tm_minute = 0, tm_second = 0\<rparr>) None] ! 0
       = (demo_task_row ''A'' ''todo'' (Some \<lparr>tm_hour = 10, tm_minute = 0, tm_second = 0\<rparr>) None)
           \<lparr>s_last_notified_at := Some 1767607200000000, s_updated_at := 1767607200000000\<rparr>"
proof -
  let ?w = demo_world and ?r = "demo_request [''authorization'' \<mapsto> ''Bearer s3cret''] None"
  let ?rows = "[demo_task_row ''A'' ''todo'' (Some \<lparr>tm_hour = 10, tm_minute = 0, tm_second = 0\<rparr>) None,
         demo_task_row ''B'' ''todo'' (Some \<lparr>tm_hour = 10, tm_minute = 0, tm_second = 0\<rparr>) None]"
  have h1: "canRun (CRON_SECRET ?w) ?r"
    by (simp add: canRun_def truthy_def)
  have h2: "get_due_tasks_reply ?w (window_minutes_arg (windowMinutes (StringToNumber ?w) (query_window ?r))) =
      Inr [demo_due ''A'' ''u1'', demo_due ''B'' ''u2'']"
    by simp
  have h3: "select_subscriptions_error ?w = None"
    by simp
  note T = handler_marks_delivered_tasks [OF h1 h2 h3, of 1767607200000000 "[''A'']" ?rows]
  have g1: "push_calls (snd (handler ?w ?r)) =
     [(push_target (demo_sub ''s1'' ''u1'' ''e1''), push_payload (demo_due ''A'' ''u1'')),
      (push_target (demo_sub ''s2'' ''u1'' ''e2''), push_payload (demo_due ''A'' ''u1'')),
      (push_target (demo_sub ''s3'' ''u2'' ''e3''), push_payload (demo_due ''B'' ''u2''))]"
    using T [THEN conjunct1] by simp
  from T [THEN conjunct2, THEN conjunct1] obtain ids where
    m: "mark_calls (snd (handler ?w ?r)) = (if ids = [] then [] else [ids])"
    and l: "ids \<noteq> [] \<longrightarrow> last (snd (handler ?w ?r)) = MarkTasksNotified ids"
    by blast
  have "mark_calls (snd (handler ?w ?r)) = [[''A'']]"
    by (simp add: demo_run)
  with m have ids: "ids = [''A'']"
    by (cases "ids = []") simp_all
  have g2: "mark_calls (snd (handler ?w ?r)) = [[''A'']]"
    using m ids by simp
  have g3: "last (snd (handler ?w ?r)) = MarkTasksNotified [''A'']"
    using l ids by simp
  have g4: "mark_tasks_notified 1767607200000000 [''A''] ?rows ! 0 =
      (demo_task_row ''A'' ''todo'' (Some \<lparr>tm_hour = 10, tm_minute = 0, tm_second = 0\<rparr>) None)
           \<lparr>s_last_notified_at := Some 1767607200000000, s_updated_at := 1767607200000000\<rparr>"
    using T [THEN conjunct2, THEN conjunct2, THEN conjunct2] by simp
  show ?thesis using g1 g2 g3 g4 by (intro conjI)
qed

text \<open>
  Claim C5 as it is written fails on a run without a delivery: a run with two due tasks
  whose owners have no subscription answers 200 and issues no mark command, where the
  claim has exactly one.
\<close>

theorem handler_no_delivery_no_mark:
  "fst (handler (demo_world\<lparr>push_subscriptions := []\<rparr>) (demo_request [''authorization'' \<mapsto> ''Bearer s3cret''] None))
     = (200, Summary 2 0 0)
   \<and> mark_calls (snd (handler (demo_world\<lparr>push_subscriptions := []\<rparr>)
        (demo_request [''authorization'' \<mapsto> ''Bearer s3cret''] None))) = []"
  by (simp add: handler_def canRun_def truthy_def windowMinutes_def window_minutes_arg_def
      set_add_def group_by_user_filter)

section \<open>Authorisation of the job trigger\<close>

text \<open>
  Claim C7, as the code has it. When a non-empty secret is configured, a call without a
  non-empty \<^verbatim>\<open>x-vercel-cron\<close> header whose \<^verbatim>\<open>authorization\<close> header, once its first
  \<^verbatim>\<open>Bearer \<close> is removed, is not the secret, is answered 401 and makes no request at all.
  A call may run when no secret is configured, when it carries the header, or when its
  token is the secret.
\<close>

theorem handler_rejects_unauthorized:
  "(CRON_SECRET w = Some secret \<and> secret \<noteq> [] \<and> \<not> truthy (headers request ''x-vercel-cron'') \<and>
      map_option (replace_first ''Bearer '' []) (headers request ''authorization'') \<noteq> Some secret \<longrightarrow>
        handler w request = ((401, ErrorBody ''Unauthorized''), []))
   \<and> (\<not> truthy (CRON_SECRET w) \<longrightarrow> canRun (CRON_SECRET w) request)
   \<and> (truthy (headers request ''x-vercel-cron'') \<longrightarrow> canRun (CRON_SECRET w) request)
   \<and> (map_option (replace_first ''Bearer '' []) (headers request ''authorization'') = CRON_SECRET w \<longrightarrow>
        canRun (CRON_SECRET w) request)"
  by (auto simp: handler_def canRun_def truthy_def)

theorem handler_rejects_unauthorized_witness:
  "handler demo_world (demo_request [''authorization'' \<mapsto> ''Bearer wrong''] None) = ((401, ErrorBody ''Unauthorized''), [])
   \<and> canRun (CRON_SECRET (demo_world\<lparr>CRON_SECRET := None\<rparr>)) (demo_request Map.empty None)
   \<and> canRun (CRON_SECRET demo_world) (demo_request [''x-vercel-cron'' \<mapsto> ''1''] None)
   \<and> canRun (CRON_SECRET demo_world) (demo_request [''authorization'' \<mapsto> ''Bearer s3cret''] None)"
proof -
  have h1: "CRON_SECRET demo_world = Some ''s3cret'' \<and> ''s3cret'' \<noteq> [] \<and>
      \<not> truthy (headers (demo_request [''authorization'' \<mapsto> ''Bearer wrong''] None) ''x-vercel-cron'') \<and>
      map_option (replace_first ''Bearer '' []) (headers (demo_request [''authorization'' \<mapsto> ''Bearer wrong''] None) ''authorization'') \<noteq> Some ''s3cret''"
    by (simp add: truthy_def)
  have h2: "\<not> truthy (CRON_SECRET (demo_world\<lparr>CRON_SECRET := None\<rparr>))"
    by (simp add: truthy_def)
  have h3: "truthy (headers (demo_request [''x-vercel-cron'' \<mapsto> ''1''] None) ''x-vercel-cron'')"
    by (simp add: truthy_def)
  have h4: "map_option (replace_first ''Bearer '' []) (headers (demo_request [''authorization'' \<mapsto> ''Bearer s3cret''] None) ''authorization'') = CRON_SECRET demo_world"
    by simp
  have g1: "handler demo_world (demo_request [''authorization'' \<mapsto> ''Bearer wrong''] None) = ((401, ErrorBody ''Unauthorized''), [])"
    using handler_rejects_unauthorized [of demo_world "''s3cret''" "demo_request [''authorization'' \<mapsto> ''Bearer wrong''] None", THEN conjunct1] h1
    by (rule mp)
  have g2: "canRun (CRON_SECRET (demo_world\<lparr>CRON_SECRET := None\<rparr>)) (demo_request Map.empty None)"
    using handler_rejects_unauthorized [of "demo_world\<lparr>CRON_SECRET := None\<rparr>" "''s3cret''" "demo_request Map.empty None", THEN conjunct2, THEN conjunct1] h2
    by (rule mp)
  have g3: "canRun (CRON_SECRET demo_world) (demo_request [''x-vercel-cron'' \<mapsto> ''1''] None)"
    using handler_rejects_unauthorized [of demo_world "''s3cret''" "demo_request [''x-vercel-cron'' \<mapsto> ''1''] None", THEN conjunct2, THEN conjunct2, THEN conjunct1] h3
    by (rule mp)
  have g4: "canRun (CRON_SECRET demo_world) (demo_request [''authorization'' \<mapsto> ''Bearer s3cret''] None)"
    using handler_rejects_unauthorized [of demo_world "''s3cret''" "demo_request [''authorization'' \<mapsto> ''Bearer s3cret''] None", THEN conjunct2, THEN conjunct2, THEN conjunct2] h4
    by (rule mp)
  show ?thesis using g1 g2 g3 g4 by (intro conjI)
qed

text \<open>
  Claim C7 as it is written fails when no secret is configured: a call without any header
  is then not rejected, it runs the due-task query.
\<close>

theorem handler_open_without_secret:
  "handler (demo_world\<lparr>CRON_SECRET := None, get_due_tasks_reply := (\<lambda>n. Inr [])\<rparr>) (demo_request Map.empty None) =
     ((200, NoDueTasks), [GetDueTasks (Finite 5)])"
  by (simp add: handler_def canRun_def truthy_def windowMinutes_def window_minutes_arg_def)

section \<open>The scan window\<close>

lemma handler_first_event:
  assumes "canRun (CRON_SECRET w) request"
  shows "hd (snd (handler w request)) =
      GetDueTasks (window_minutes_arg (windowMinutes (StringToNumber w) (query_window request)))"
proof -
  let ?arg = "window_minutes_arg (windowMinutes (StringToNumber w) (query_window request))"
  show ?thesis
  proof (cases "get_due_tasks_reply w ?arg")
    case (Inl e)
    then show ?thesis using assms by (simp add: handler_def)
  next
    case (Inr due)
    show ?thesis
    proof (cases "select_subscriptions_error w")
      case None
      from handler_trace [OF assms Inr None] show ?thesis by auto
    next
      case (Some e)
      then show ?thesis using assms Inr by (simp add: handler_def Let_def)
    qed
  qed
qed

lemma bounds_nonpositive: "w \<le> 0 \<Longrightarrow> bounds now w = bounds now 1"
  by (simp add: bounds_def max_def)

text \<open>
  Claim C10. The window starts at \<open>now\<close> and ends \<open>max w 1\<close> minutes later, so it is never
  empty, and a zero or negative argument gives the answer of the argument 1. In the
  handler an absent parameter reads as 5, a parameter that does not convert to a finite
  number is replaced by 5, a finite one is passed as it is, and this value is the argument
  of the due-task query of every authorised run.
\<close>

theorem window_is_positive:
  "fst (bounds now w) = now
   \<and> snd (bounds now w) = now + max w 1 * 60000000
   \<and> fst (bounds now w) < snd (bounds now w)
   \<and> (w \<le> 0 \<longrightarrow> get_due_tasks mk now w rows = get_due_tasks mk now 1 rows)
   \<and> windowMinutes toNumber None = Finite 5
   \<and> (\<not> isFinite (windowMinutes toNumber q) \<longrightarrow> window_minutes_arg (windowMinutes toNumber q) = Finite 5)
   \<and> (isFinite (windowMinutes toNumber q) \<longrightarrow>
        window_minutes_arg (windowMinutes toNumber q) = windowMinutes toNumber q)
   \<and> (canRun (CRON_SECRET world) request \<longrightarrow>
        hd (snd (handler world request)) =
          GetDueTasks (window_minutes_arg (windowMinutes (StringToNumber world) (query_window request))))"
proof -
  have a: "w \<le> 0 \<longrightarrow> get_due_tasks mk now w rows = get_due_tasks mk now 1 rows"
    by (simp add: get_due_tasks_def bounds_nonpositive)
  have b: "canRun (CRON_SECRET world) request \<longrightarrow>
        hd (snd (handler world request)) =
          GetDueTasks (window_minutes_arg (windowMinutes (StringToNumber world) (query_window request)))"
    using handler_first_event by blast
  show ?thesis
    using a b by (simp add: bounds_def make_interval_mins_def window_minutes_arg_def windowMinutes_def)
qed

theorem window_is_positive_witness:
  "get_due_tasks demo_mk 1767607080000000 0
       [demo_task_row ''A'' ''todo'' (Some \<lparr>tm_hour = 9, tm_minute = 58, tm_second = 30000000\<rparr>) None]
     = get_due_tasks demo_mk 1767607080000000 1
       [demo_task_row ''A'' ''todo'' (Some \<lparr>tm_hour = 9, tm_minute = 58, tm_second = 30000000\<rparr>) None]
   \<and> window_minutes_arg (windowMinutes (StringToNumber demo_world) (Some (One ''abc''))) = Finite 5
   \<and> window_minutes_arg (windowMinutes (StringToNumber demo_world) (Some (One ''10''))) = Finite 10
   \<and> hd (snd (handler demo_world (demo_request [''x-vercel-cron'' \<mapsto> ''1''] (Some (Many [''1'', ''2''])))))
       = GetDueTasks (Finite 5)"
proof -
  let ?rows = "[demo_task_row ''A'' ''todo'' (Some \<lparr>tm_hour = 9, tm_minute = 58, tm_second = 30000000\<rparr>) None]"
  let ?n = "StringToNumber demo_world"
  let ?r = "demo_request [''x-vercel-cron'' \<mapsto> ''1''] (Some (Many [''1'', ''2'']))"
  have h1: "(0::int) \<le> 0" by simp
  have h2: "\<not> isFinite (windowMinutes ?n (Some (One ''abc'')))"
    by (simp add: windowMinutes_def)
  have h3: "isFinite (windowMinutes ?n (Some (One ''10'')))"
    by (simp add: windowMinutes_def)
  have h4: "canRun (CRON_SECRET demo_world) ?r"
    by (simp add: canRun_def truthy_def)
  have g1: "get_due_tasks demo_mk 1767607080000000 0 ?rows = get_due_tasks demo_mk 1767607080000000 1 ?rows"
    using window_is_positive [of 1767607080000000 0 demo_mk ?rows, THEN conjunct2, THEN conjunct2, THEN conjunct2, THEN conjunct1] h1
    by (rule mp)
  have g2: "window_minutes_arg (windowMinutes ?n (Some (One ''abc''))) = Finite 5"
    using window_is_positive [of _ _ _ _ ?n "Some (One ''abc'')", THEN conjunct2, THEN conjunct2, THEN conjunct2, THEN conjunct2, THEN conjunct2, THEN conjunct1] h2
    by (rule mp)
  have "window_minutes_arg (windowMinutes ?n (Some (One ''10''))) = windowMinutes ?n (Some (One ''10''))"
    using window_is_positive [of _ _ _ _ ?n "Some (One ''10'')", THEN conjunct2, THEN conjunct2, THEN conjunct2, THEN conjunct2, THEN conjunct2, THEN conjunct2, THEN conjunct1] h3
    by (rule mp)
  then have g3: "window_minutes_arg (windowMinutes ?n (Some (One ''10''))) = Finite 10"
    by (simp add: windowMinutes_def)
  have "hd (snd (handler demo_world ?r)) =
      GetDueTasks (window_minutes_arg (windowMinutes (StringToNumber demo_world) (query_window ?r)))"
    using window_is_positive [of _ _ _ _ _ _ demo_world ?r, THEN conjunct2, THEN conjunct2, THEN conjunct2, THEN conjunct2, THEN conjunct2, THEN conjunct2, THEN conjunct2] h4
    by (rule mp)
  then have g4: "hd (snd (handler demo_world ?r)) = GetDueTasks (Finite 5)"
    by (simp add: windowMinutes_def window_minutes_arg_def)
  show ?thesis using g1 g2 g3 g4 by (intro conjI)
qed

end
